theory Spec2Isabelle
  imports Complex_Main
begin

section \<open>Severity results\<close>

text \<open>
  The enumeration \<open>ImportResult\<close> of \<open>part_importer.py\<close>, with the numeric value
  of each member, and its \<open>__or__\<close> operator: the operand with the smaller value
  wins, the right operand on a tie.
\<close>

datatype ImportResult = ERROR | FAILURE | INCOMPLETE | SUCCESS

fun result_value :: "ImportResult \<Rightarrow> int" where
  "result_value ERROR = 0"
| "result_value FAILURE = 1"
| "result_value INCOMPLETE = 2"
| "result_value SUCCESS = 3"

definition result_or :: "ImportResult \<Rightarrow> ImportResult \<Rightarrow> ImportResult" where
  "result_or self other = (if result_value self < result_value other then self else other)"

text \<open>
  The order of the specification, \<open>SUCCESS < INCOMPLETE < FAILURE < ERROR\<close>, as a
  rank. It is written from the specification's sentence, not from the enumeration's
  numeric values, and is what \<open>result_or\<close> is compared against.
\<close>

fun spec_severity :: "ImportResult \<Rightarrow> nat" where
  "spec_severity SUCCESS = 0"
| "spec_severity INCOMPLETE = 1"
| "spec_severity FAILURE = 2"
| "spec_severity ERROR = 3"

section \<open>Python values\<close>

subsection \<open>Strings\<close>

text \<open>
  A Python \<open>str\<close> is a sequence of Unicode code points. The sanitizer looks at the
  code point U+00B1 and \<open>str.strip\<close> at Unicode white space, so a string is a list
  of code points; \<open>str\<close> embeds an ASCII literal.
\<close>

type_synonym pystr = "nat list"

definition str :: "string \<Rightarrow> pystr" where
  "str s = map of_char s"

text \<open>
  \<open>str.isspace\<close> on one code point, as CPython's Unicode database has it
  (\<open>Py_UNICODE_ISSPACE\<close>), and \<open>str.strip()\<close> without argument, which removes
  such code points from both ends.
\<close>

definition isspace :: "nat \<Rightarrow> bool" where
  "isspace c \<longleftrightarrow>
     (9 \<le> c \<and> c \<le> 13) \<or> (28 \<le> c \<and> c \<le> 32) \<or> c = 133 \<or> c = 160 \<or> c = 5760 \<or>
     (8192 \<le> c \<and> c \<le> 8202) \<or> c = 8232 \<or> c = 8233 \<or> c = 8239 \<or> c = 8287 \<or>
     c = 12288"

definition strip :: "pystr \<Rightarrow> pystr" where
  "strip s = rev (dropWhile isspace (rev (dropWhile isspace s)))"

text \<open>
  \<open>s.replace(old, new)\<close>: the occurrences of \<open>old\<close> are found from the left and do
  not overlap. For an empty \<open>old\<close> Python puts \<open>new\<close> before every character and
  at the end.
\<close>

fun replace_from :: "'a list \<Rightarrow> 'a list \<Rightarrow> 'a list \<Rightarrow> 'a list" where
  "replace_from old new [] = []"
| "replace_from old new (c # cs) =
     (if take (length old) (c # cs) = old
      then new @ replace_from old new (drop (length old - 1) cs)
      else c # replace_from old new cs)"

fun str_replace :: "'a list \<Rightarrow> 'a list \<Rightarrow> 'a list \<Rightarrow> 'a list" where
  "str_replace [] new s = new @ concat (map (\<lambda>c. c # new) s)"
| "str_replace old new s = replace_from old new s"

text \<open>\<open>sep.join(xs)\<close>.\<close>

fun join :: "'a list \<Rightarrow> 'a list list \<Rightarrow> 'a list" where
  "join sep [] = []"
| "join sep [x] = x"
| "join sep (x # y # ys) = x @ sep @ join sep (y # ys)"

text \<open>
  Truth value of an attribute that holds a string or \<open>None\<close>: \<open>None\<close> and the
  empty string are false.
\<close>

fun truthy :: "pystr option \<Rightarrow> bool" where
  "truthy None = False"
| "truthy (Some s) = (s \<noteq> [])"

subsection \<open>Dictionaries, slices, sorting\<close>

text \<open>
  A \<open>dict\<close> keeps its keys in insertion order, so it is an association list with
  distinct keys: \<open>d.get(k)\<close> is \<open>map_of d k\<close>, and \<open>d[k] = v\<close> replaces the value
  of a present key in place and appends an absent one. \<open>dict_of\<close> is a dictionary
  display or comprehension over the pairs, a later pair overriding an earlier one with
  the same key.
\<close>

fun dict_set :: "('k \<times> 'v) list \<Rightarrow> 'k \<Rightarrow> 'v \<Rightarrow> ('k \<times> 'v) list" where
  "dict_set [] k v = [(k, v)]"
| "dict_set ((k', v') # d) k v = (if k' = k then (k, v) # d else (k', v') # dict_set d k v)"

definition dict_of :: "('k \<times> 'v) list \<Rightarrow> ('k \<times> 'v) list" where
  "dict_of kvs = foldl (\<lambda>d (k, v). dict_set d k v) [] kvs"

text \<open>\<open>xs[:n]\<close> and \<open>xs[-n:]\<close> for a Python integer \<open>n\<close>.\<close>

definition slice_to :: "'a list \<Rightarrow> int \<Rightarrow> 'a list" where
  "slice_to xs n = (if 0 \<le> n then take (nat n) xs else take (length xs - nat (- n)) xs)"

definition last_two :: "'a list \<Rightarrow> 'a list" where
  "last_two xs = drop (length xs - 2) xs"

text \<open>
  \<open>sorted(xs, key=f, reverse=True)\<close>: the sort is stable, and with \<open>reverse=True\<close>
  elements with equal keys still keep their order.
\<close>

definition sorted_reverse :: "('a \<Rightarrow> nat) \<Rightarrow> 'a list \<Rightarrow> 'a list" where
  "sorted_reverse f xs = sort_key (\<lambda>x. - int (f x)) xs"

section \<open>Entities and collaborators\<close>

subsection \<open>Objects the importer reads\<close>

text \<open>
  The objects of the repository client and of the supplier adapters, each with the
  attributes \<open>part_importer.py\<close> reads. Identifiers are Python integers. A price of
  a candidate and a break quantity are finite numbers, taken as the rationals they
  denote; the price a stored price break carries is text that \<open>float\<close> converts.
\<close>

type_synonym pk = int

record Company =
  company_pk :: pk
  company_name :: pystr

record Part =
  part_pk :: pk
  part_category :: pk
  part_image :: "pystr option"

record ManufacturerPart =
  mpart_pk :: pk
  mpart_part :: pk

record SupplierPart =
  spart_pk :: pk
  spart_SKU :: pystr
  spart_manufacturer_part :: "pk option"
  spart_url :: pystr

record SupplierPriceBreak =
  pbreak_pk :: pk
  pbreak_quantity :: rat
  pbreak_price :: pystr

text \<open>
  A parameter of a part, as the repository client returns it: \<open>pk\<close>, \<open>data\<close> and
  \<open>template_detail\<close>, whose \<open>name\<close> line 331 reads. The record has no attribute
  \<open>name\<close> of its own.
\<close>

record Parameter =
  param_pk :: pk
  param_template_name :: pystr
  param_data :: pystr

record ParameterTemplate =
  template_pk :: pk
  template_name :: pystr

text \<open>An entry of \<open>parameter_map\<close>: the configured parameter an alias stands for.\<close>

record ParameterConfig =
  pconf_name :: pystr

text \<open>
  A configured category with the repository category it maps to
  (\<open>category.part_category.pk\<close> and \<open>.pathstring\<close>).
\<close>

record Category =
  cat_name :: pystr
  cat_path :: "pystr list"
  cat_parameters :: "pystr list"
  cat_part_category_pk :: pk
  cat_pathstring :: pystr

text \<open>
  The candidate record of a supplier adapter (\<open>ApiPart\<close>), with the attributes
  \<open>DigiKey.get_api_part\<close> sets and \<open>datasheet_url\<close>, which \<open>finalize\<close> may fill in.
\<close>

record ApiPart =
  description :: pystr
  image_url :: "pystr option"
  datasheet_url :: "pystr option"
  supplier_link :: pystr
  SKU :: pystr
  manufacturer :: pystr
  manufacturer_link :: pystr
  MPN :: pystr
  quantity_available :: int
  packaging :: pystr
  category_path :: "pystr list"
  parameters :: "(pystr \<times> pystr) list"
  price_breaks :: "(rat \<times> rat) list"
  currency :: pystr

text \<open>
  The dictionary \<open>supplier_part_data\<close> of \<open>import_supplier_part\<close>; the entries of
  \<open>api_part.get_supplier_part_data()\<close> are a function of the candidate, which stands
  for them.
\<close>

record SupplierPartData =
  spd_part :: pk
  spd_manufacturer_part :: pk
  spd_supplier :: pk
  spd_SKU :: pystr
  spd_api_part :: ApiPart

subsection \<open>Exceptions\<close>

text \<open>
  An \<open>HTTPError\<close> is raised with arguments: none, a first argument that is not a
  dictionary, a dictionary without the key \<open>body\<close>, or a dictionary whose \<open>body\<close> is
  a text, given with what \<open>json.loads\<close> makes of it: a \<open>JSONDecodeError\<close>, an
  object with its items, or another JSON value (a list, a string, a number,
  \<open>null\<close>). \<open>NeverReturns\<close> is not an exception: it marks a call that loops for
  ever, which no handler catches either.
\<close>

datatype json_value = JSONDecodeError | JObject "(pystr \<times> pystr) list" | JOther

datatype http_args = NoArgs | NonDict | DictNoBody | DictBody pystr json_value

datatype exn =
    HTTPError http_args
  | AttributeError
  | IndexError
  | KeyError
  | TypeError
  | ValueError
  | NeverReturns

subsection \<open>Requests to the collaborators\<close>

text \<open>
  Everything outside \<open>part_importer.py\<close> that it calls with an effect or an answer of
  its own: the repository client and \<open>inventree_helpers\<close>, the supplier search and
  its asynchronous results, the candidate's \<open>finalize\<close>, the alias registration of
  \<open>categories\<close>, and the console prompts \<open>select\<close> and \<open>prompt_input\<close>. One
  constructor per call site or callee.
\<close>

datatype choice =
    ChoosePart ApiPart
  | ChooseCategory Category
  | ChooseParameter pystr pystr
  | EnterManually
  | Skip

datatype request =
    GetSupplierPart pystr
  | FetchManufacturerPart pk
  | GetManufacturerPart pystr
  | Finalize ApiPart
  | GetPart pystr
  | FetchPart pk
  | UpdateManufacturerPart ManufacturerPart pk
  | UpdatePart Part ApiPart
  | UpdateSupplierPart SupplierPart SupplierPartData
  | UploadImage Part pystr
  | GetAttachments Part
  | UploadDatasheet Part pystr
  | AddLinkAttachment Part pystr
  | CreatePart pk ApiPart
  | CreateManufacturer pystr
  | CreateManufacturerPart pk pk ApiPart
  | CategoryAddAlias Category pystr
  | ParameterAddAlias ParameterConfig pystr
  | ListParameters pk
  | GetCategoryPathstring Part
  | CreateParameter pk ParameterTemplate pystr
  | SaveParameter Parameter pystr
  | CreateSupplierPart SupplierPartData
  | ListPriceBreaks pk
  | SavePriceBreak SupplierPriceBreak rat pystr
  | CreatePriceBreak pk rat rat pystr
  | DeletePriceBreak SupplierPriceBreak
  | AddStock pk pk int
  | Search pystr "pystr option" bool
  | AsyncGet nat
  | AsyncWait nat
  | Select "choice list"
  | PromptInput pystr

datatype response =
    RNone
  | RBool bool
  | RIndex nat
  | RText pystr
  | RTexts "pystr list"
  | RPk pk
  | RPart "Part option"
  | RManufacturerPart "ManufacturerPart option"
  | RSupplierPart "SupplierPart option"
  | RFinalized bool ApiPart
  | RParameters "Parameter list"
  | RPriceBreaks "SupplierPriceBreak list"
  | RSearch "(Company \<times> nat) list"
  | RResults "ApiPart list" int

datatype reply = Ok response | Raise exn

text \<open>
  A collaborator answers a request from its state \<open>'r\<close> (the repository, the
  network, the user at the console) and moves to a new state. Nothing is assumed
  about it: it may raise on any request, and two equal requests may get different
  answers.
\<close>

type_synonym 'r collaborator = "request \<Rightarrow> 'r \<Rightarrow> reply \<times> 'r"

subsection \<open>Console output\<close>

datatype level = Info | Hint | Prompt | Warning | Error | Success | Print

datatype error_detail = UnknownHTTPError | ErrorItems "(pystr \<times> pystr) list"

datatype message =
    SearchingFor pystr
  | SearchingAt pystr
  | NoResultsAt pystr
  | FoundMultipleParts pystr
  | OnlyShowingFirst int nat
  | FoundPartsSkipping int pystr
  | FailedToImport error_detail
  | FullTraceback
  | FoundExisting pystr pystr
  | Importing pystr pystr
  | InvalidDatasheets pystr
  | SupplierPartDone pystr pystr pystr pystr
  | FailedToMatchCategory "pystr list"
  | FailedToMatchCategorySelect "pystr list"
  | CreatingPart pystr pystr
  | CreatingManufacturerPart pystr
  | CategoryDoesNotExist pystr
  | SelectCategory
  | UpdatingPriceBreaks
  | CategoryNotDefined pystr
  | AvailableParameters
  | AvailableParameter pystr pystr
  | FailedToMatchSome pystr
  | FailedToMatchValue pystr
  | FailedToAddAlias pystr pystr
  | FailedToFindTemplate pystr
  | UpdatingPartParameters
  | FailedToCreateParameter pystr pystr
  | FailedToMatchParameters "pystr list"

datatype event = Called request reply | Said level message

subsection \<open>The importer and the state of a run\<close>

text \<open>
  The attributes of \<open>PartImporter\<close> that no method assigns after \<open>__init__\<close>, with
  the entries of the configuration the importer reads (\<open>max_results\<close> and
  \<open>datasheets\<close>) and the base URL of the repository client.
\<close>

datatype datasheets_mode = Upload | Link | Disabled | InvalidMode pystr

record importer =
  interactive :: bool
  verbose :: bool
  dry_run :: bool
  base_url :: pystr
  category_map :: "(pystr \<times> Category) list"
  parameter_templates :: "(pystr \<times> ParameterTemplate) list"
  max_results :: int
  datasheets :: datasheets_mode

text \<open>
  Library functions without effect, as parameters: the two similarity ratios of
  \<open>thefuzz\<close>, \<open>requests.compat.quote\<close> with \<open>safe=":/"\<close>, \<open>float\<close> on the
  text of a stored price (\<open>None\<close> where it raises \<open>ValueError\<close>), and the order
  in which Python iterates over a set of strings, which follows the hashes of the
  strings: \<open>set_iter\<close> takes the elements of the set and gives them in that order.
\<close>

record library =
  fuzz_ratio :: "pystr \<Rightarrow> pystr \<Rightarrow> nat"
  fuzz_partial_ratio :: "pystr \<Rightarrow> pystr \<Rightarrow> nat"
  quote :: "pystr \<Rightarrow> pystr"
  py_float :: "pystr \<Rightarrow> rat option"
  set_iter :: "pystr list \<Rightarrow> pystr list"

text \<open>
  What a run changes: the collaborators' state, the events so far (requests with
  their answers, and console output), and the two attributes of the importer that its
  methods assign.
\<close>

record 'r world =
  repo :: 'r
  trace :: "event list"
  parameter_map :: "(pystr \<times> ParameterConfig list) list"
  existing_manufacturer_part :: "ManufacturerPart option"

subsection \<open>Programs\<close>

text \<open>
  A method is a function from the state before to an outcome (an exception raised,
  or a value returned) and the state after.
\<close>

type_synonym ('r, 'a) prog = "'r world \<Rightarrow> (exn + 'a) \<times> 'r world"

definition ret :: "'a \<Rightarrow> ('r, 'a) prog" where
  "ret x w = (Inr x, w)"

definition raise :: "exn \<Rightarrow> ('r, 'a) prog" where
  "raise e w = (Inl e, w)"

definition bind :: "('r, 'a) prog \<Rightarrow> ('a \<Rightarrow> ('r, 'b) prog) \<Rightarrow> ('r, 'b) prog" where
  "bind m f w = (case m w of (Inl e, w') \<Rightarrow> (Inl e, w') | (Inr x, w') \<Rightarrow> f x w')"

definition seq :: "('r, unit) prog \<Rightarrow> ('r, 'b) prog \<Rightarrow> ('r, 'b) prog" where
  "seq m n = bind m (\<lambda>_. n)"

definition say :: "level \<Rightarrow> message \<Rightarrow> ('r, unit) prog" where
  "say l m w = (Inr (), w\<lparr>trace := trace w @ [Said l m]\<rparr>)"

definition call :: "'r collaborator \<Rightarrow> request \<Rightarrow> ('r, response) prog" where
  "call api rq w =
     (case api rq (repo w) of
        (Ok x, r') \<Rightarrow> (Inr x, w\<lparr>repo := r', trace := trace w @ [Called rq (Ok x)]\<rparr>)
      | (Raise e, r') \<Rightarrow> (Inl e, w\<lparr>repo := r', trace := trace w @ [Called rq (Raise e)]\<rparr>))"

text \<open>
  The answer of a call, read as the caller uses it. An answer of another shape than
  the caller's attribute accesses need is a \<open>TypeError\<close>.
\<close>

definition call_unit :: "'r collaborator \<Rightarrow> request \<Rightarrow> ('r, unit) prog" where
  "call_unit api rq = bind (call api rq) (\<lambda>r. ret ())"

definition call_part :: "'r collaborator \<Rightarrow> request \<Rightarrow> ('r, Part) prog" where
  "call_part api rq =
     bind (call api rq) (\<lambda>r. case r of RPart (Some p) \<Rightarrow> ret p | _ \<Rightarrow> raise TypeError)"

definition call_part_opt :: "'r collaborator \<Rightarrow> request \<Rightarrow> ('r, Part option) prog" where
  "call_part_opt api rq =
     bind (call api rq) (\<lambda>r. case r of RPart p \<Rightarrow> ret p | _ \<Rightarrow> raise TypeError)"

definition call_mpart :: "'r collaborator \<Rightarrow> request \<Rightarrow> ('r, ManufacturerPart) prog" where
  "call_mpart api rq =
     bind (call api rq)
       (\<lambda>r. case r of RManufacturerPart (Some p) \<Rightarrow> ret p | _ \<Rightarrow> raise TypeError)"

definition call_mpart_opt ::
  "'r collaborator \<Rightarrow> request \<Rightarrow> ('r, ManufacturerPart option) prog" where
  "call_mpart_opt api rq =
     bind (call api rq) (\<lambda>r. case r of RManufacturerPart p \<Rightarrow> ret p | _ \<Rightarrow> raise TypeError)"

definition call_spart :: "'r collaborator \<Rightarrow> request \<Rightarrow> ('r, SupplierPart) prog" where
  "call_spart api rq =
     bind (call api rq)
       (\<lambda>r. case r of RSupplierPart (Some p) \<Rightarrow> ret p | _ \<Rightarrow> raise TypeError)"

definition call_spart_opt ::
  "'r collaborator \<Rightarrow> request \<Rightarrow> ('r, SupplierPart option) prog" where
  "call_spart_opt api rq =
     bind (call api rq) (\<lambda>r. case r of RSupplierPart p \<Rightarrow> ret p | _ \<Rightarrow> raise TypeError)"

definition call_pk :: "'r collaborator \<Rightarrow> request \<Rightarrow> ('r, pk) prog" where
  "call_pk api rq =
     bind (call api rq) (\<lambda>r. case r of RPk p \<Rightarrow> ret p | _ \<Rightarrow> raise TypeError)"

definition call_index :: "'r collaborator \<Rightarrow> request \<Rightarrow> ('r, nat) prog" where
  "call_index api rq =
     bind (call api rq) (\<lambda>r. case r of RIndex i \<Rightarrow> ret i | _ \<Rightarrow> raise TypeError)"

definition call_text :: "'r collaborator \<Rightarrow> request \<Rightarrow> ('r, pystr) prog" where
  "call_text api rq =
     bind (call api rq) (\<lambda>r. case r of RText s \<Rightarrow> ret s | _ \<Rightarrow> raise TypeError)"

definition call_texts :: "'r collaborator \<Rightarrow> request \<Rightarrow> ('r, pystr list) prog" where
  "call_texts api rq =
     bind (call api rq) (\<lambda>r. case r of RTexts s \<Rightarrow> ret s | _ \<Rightarrow> raise TypeError)"

definition call_finalize :: "'r collaborator \<Rightarrow> ApiPart \<Rightarrow> ('r, bool \<times> ApiPart) prog" where
  "call_finalize api api_part =
     bind (call api (Finalize api_part))
       (\<lambda>r. case r of RFinalized ok api_part' \<Rightarrow> ret (ok, api_part') | _ \<Rightarrow> raise TypeError)"

definition call_parameters :: "'r collaborator \<Rightarrow> request \<Rightarrow> ('r, Parameter list) prog" where
  "call_parameters api rq =
     bind (call api rq) (\<lambda>r. case r of RParameters ps \<Rightarrow> ret ps | _ \<Rightarrow> raise TypeError)"

definition call_price_breaks ::
  "'r collaborator \<Rightarrow> request \<Rightarrow> ('r, SupplierPriceBreak list) prog" where
  "call_price_breaks api rq =
     bind (call api rq) (\<lambda>r. case r of RPriceBreaks ps \<Rightarrow> ret ps | _ \<Rightarrow> raise TypeError)"

definition call_search :: "'r collaborator \<Rightarrow> request \<Rightarrow> ('r, (Company \<times> nat) list) prog" where
  "call_search api rq =
     bind (call api rq) (\<lambda>r. case r of RSearch xs \<Rightarrow> ret xs | _ \<Rightarrow> raise TypeError)"

definition call_results :: "'r collaborator \<Rightarrow> request \<Rightarrow> ('r, ApiPart list \<times> int) prog" where
  "call_results api rq =
     bind (call api rq) (\<lambda>r. case r of RResults xs n \<Rightarrow> ret (xs, n) | _ \<Rightarrow> raise TypeError)"

definition get_existing_manufacturer_part :: "('r, ManufacturerPart option) prog" where
  "get_existing_manufacturer_part w = (Inr (existing_manufacturer_part w), w)"

definition set_existing_manufacturer_part :: "ManufacturerPart option \<Rightarrow> ('r, unit) prog" where
  "set_existing_manufacturer_part m w = (Inr (), w\<lparr>existing_manufacturer_part := m\<rparr>)"

definition get_parameter_map :: "('r, (pystr \<times> ParameterConfig list) list) prog" where
  "get_parameter_map w = (Inr (parameter_map w), w)"

definition set_parameter_map :: "(pystr \<times> ParameterConfig list) list \<Rightarrow> ('r, unit) prog" where
  "set_parameter_map m w = (Inr (), w\<lparr>parameter_map := m\<rparr>)"

text \<open>
  \<open>try: m except HTTPError as e: h\<close>: only an \<open>HTTPError\<close> is caught, and the
  handler gets its arguments.
\<close>

definition try_except_HTTPError ::
  "('r, 'a) prog \<Rightarrow> (http_args \<Rightarrow> ('r, 'a) prog) \<Rightarrow> ('r, 'a) prog" where
  "try_except_HTTPError m h w =
     (case m w of
        (Inl (HTTPError args), w') \<Rightarrow> h args w'
      | (res, w') \<Rightarrow> (res, w'))"

section \<open>The parameter value sanitizer\<close>

text \<open>
  \<open>SANITIZE_PARAMETER = re.compile("\<plusminus>")\<close> matches the one code point U+00B1
  (177); \<open>SANITIZE_PARAMETER.sub("", value)\<close> deletes every occurrence.
\<close>

definition SANITIZE_PARAMETER :: nat where
  "SANITIZE_PARAMETER = 177"

definition sanitize_parameter_value :: "pystr \<Rightarrow> pystr" where
  "sanitize_parameter_value v0 =
     (let v1 = strip v0 in
      if v1 = str ''-'' then []
      else
        let v2 = filter (\<lambda>c. c \<noteq> SANITIZE_PARAMETER) v1
        in str_replace (str ''ohms'') (str ''ohm'') (str_replace (str ''Ohm'') (str ''ohm'') v2))"

section \<open>Price breaks\<close>

text \<open>
  The loop of \<open>setup_price_breaks\<close> over \<open>api_part.price_breaks.items()\<close>, with the
  flag \<open>updated_pricing\<close>. \<open>price == float(price_break.price)\<close> compares the
  candidate's price with the converted stored text.
\<close>

fun price_break_loop ::
  "library \<Rightarrow> 'r collaborator \<Rightarrow> SupplierPart \<Rightarrow> ApiPart \<Rightarrow> (rat \<times> SupplierPriceBreak) list \<Rightarrow>
   (rat \<times> rat) list \<Rightarrow> bool \<Rightarrow> ('r, bool) prog" where
  "price_break_loop lib api supplier_part api_part price_breaks' [] updated_pricing =
     ret updated_pricing"
| "price_break_loop lib api supplier_part api_part price_breaks' ((quantity, price) # rest)
     updated_pricing =
     (case map_of price_breaks' quantity of
        Some price_break \<Rightarrow>
          (case py_float lib (pbreak_price price_break) of
             None \<Rightarrow> raise ValueError
           | Some stored \<Rightarrow>
               if price = stored
               then price_break_loop lib api supplier_part api_part price_breaks' rest
                      updated_pricing
               else seq (call_unit api (SavePriceBreak price_break price (currency api_part)))
                      (price_break_loop lib api supplier_part api_part price_breaks' rest True))
      | None \<Rightarrow>
          seq (call_unit api
                 (CreatePriceBreak (spart_pk supplier_part) quantity price (currency api_part)))
            (price_break_loop lib api supplier_part api_part price_breaks' rest True))"

definition setup_price_breaks ::
  "library \<Rightarrow> 'r collaborator \<Rightarrow> SupplierPart \<Rightarrow> ApiPart \<Rightarrow> ('r, unit) prog" where
  "setup_price_breaks lib api supplier_part api_part =
     bind (call_price_breaks api (ListPriceBreaks (spart_pk supplier_part))) (\<lambda>listed.
     bind (price_break_loop lib api supplier_part api_part
             (dict_of (map (\<lambda>price_break. (pbreak_quantity price_break, price_break)) listed))
             (price_breaks api_part) False) (\<lambda>updated_pricing.
     if updated_pricing then say Info UpdatingPriceBreaks else ret ()))"

section \<open>Categories\<close>

text \<open>
  \<open>self.categories = set(self.category_map.values())\<close>. The iteration order of a
  Python set is not specified; the model takes the categories in the order of their
  first entry in \<open>category_map\<close>.
\<close>

definition categories :: "importer \<Rightarrow> Category list" where
  "categories self = remdups (map snd (category_map self))"

definition part_category_to_category :: "importer \<Rightarrow> (pk \<times> Category) list" where
  "part_category_to_category self =
     dict_of (map (\<lambda>(alias, category). (cat_part_category_pk category, category))
       (category_map self))"

text \<open>
  The \<open>for subcategory in reversed(api_part.category_path)\<close> loop of
  \<open>create_manufacturer_part\<close>: the first segment that \<open>category_map\<close> knows ends
  the loop; \<open>None\<close> is the loop's \<open>else\<close> branch.
\<close>

fun match_category :: "(pystr \<times> Category) list \<Rightarrow> pystr list \<Rightarrow> Category option" where
  "match_category cm [] = None"
| "match_category cm (subcategory # rest) =
     (case map_of cm subcategory of
        Some category \<Rightarrow> Some category
      | None \<Rightarrow> match_category cm rest)"

definition max_of :: "nat list \<Rightarrow> nat" where
  "max_of xs = foldr max xs 0"

definition rate_category :: "library \<Rightarrow> pystr list \<Rightarrow> Category \<Rightarrow> nat" where
  "rate_category lib search_terms category =
     max_of (concat (map (\<lambda>name. map (\<lambda>trm. fuzz_ratio lib trm name) search_terms)
       [cat_name category, join (str '' '') (last_two (cat_path category))]))"

text \<open>
  The \<open>while True\<close> loop of \<open>select_category\<close>. It ends when the user skips, picks
  a listed category or enters the name of a known one, and runs for ever while the
  user keeps entering unknown names: the result is \<open>None\<close> then. Of the importer
  the loop reads \<open>self.category_map\<close>, which is its argument \<open>cm\<close>.
\<close>

partial_function (option) select_category_loop ::
  "'r collaborator \<Rightarrow> (pystr \<times> Category) list \<Rightarrow> Category list \<Rightarrow> nat \<Rightarrow> choice list \<Rightarrow>
   'r world \<Rightarrow> ((exn + Category option) \<times> 'r world) option" where
  "select_category_loop api cm category_matches n choices w =
     (case call_index api (Select choices) w of
        (Inl e, w1) \<Rightarrow> Some (Inl e, w1)
      | (Inr index, w1) \<Rightarrow>
          if index = n + 1 then Some (Inr None, w1)
          else if index < n then Some (Inr (Some (category_matches ! index)), w1)
          else
            (case call_text api (PromptInput (str ''category name'')) w1 of
               (Inl e, w2) \<Rightarrow> Some (Inl e, w2)
             | (Inr name, w2) \<Rightarrow>
                 (case filter (\<lambda>category. cat_name category = name)
                         (case map_of cm name of
                            None \<Rightarrow> [] | Some category \<Rightarrow> [category]) of
                    category # _ \<Rightarrow> Some (Inr (Some category), w2)
                  | [] \<Rightarrow>
                      select_category_loop api cm category_matches n choices
                        (snd (seq (say Warning (CategoryDoesNotExist name))
                                (say Prompt SelectCategory) w2)))))"

definition select_category ::
  "library \<Rightarrow> 'r collaborator \<Rightarrow> importer \<Rightarrow> pystr list \<Rightarrow> ('r, Category option) prog" where
  "select_category lib api self category_path' =
     (if category_path' = [] then raise IndexError
      else
        let search_terms = [last category_path', join (str '' '') (last_two category_path')];
            category_matches =
              sorted_reverse (rate_category lib search_terms) (categories self);
            n = min 5 (length category_matches);
            choices = map ChooseCategory (take n category_matches) @ [EnterManually, Skip]
        in (\<lambda>w. case select_category_loop api (category_map self) category_matches n
                          choices w of
                   None \<Rightarrow> (Inl NeverReturns, w)
                 | Some res \<Rightarrow> res))"

text \<open>
  Lines 237 to 249 of \<open>create_manufacturer_part\<close>: the category of a part that is
  about to be created; \<open>None\<close> stands for \<open>return ImportResult.FAILURE\<close>.
\<close>

definition resolve_category ::
  "library \<Rightarrow> 'r collaborator \<Rightarrow> importer \<Rightarrow> ApiPart \<Rightarrow> ('r, Category option) prog" where
  "resolve_category lib api self api_part =
     (case match_category (category_map self) (rev (category_path api_part)) of
        Some category \<Rightarrow> ret (Some category)
      | None \<Rightarrow>
          if \<not> interactive self
          then seq (say Error (FailedToMatchCategory (category_path api_part))) (ret None)
          else
            seq (say Prompt (FailedToMatchCategorySelect (category_path api_part)))
           (bind (select_category lib api self (category_path api_part)) (\<lambda>selected.
            case selected of
              None \<Rightarrow> ret None
            | Some category \<Rightarrow>
                seq (call_unit api (CategoryAddAlias category (last (category_path api_part))))
                  (ret (Some category)))))"

definition create_manufacturer_part ::
  "library \<Rightarrow> 'r collaborator \<Rightarrow> importer \<Rightarrow> ApiPart \<Rightarrow> Part option \<Rightarrow>
   ('r, ImportResult + ManufacturerPart \<times> Part) prog" where
  "create_manufacturer_part lib api self api_part part =
     bind (case part of
             Some p \<Rightarrow> ret (Some p)
           | None \<Rightarrow> call_part_opt api (GetPart (MPN api_part))) (\<lambda>found.
     bind (case found of
             Some p \<Rightarrow> seq (call_unit api (UpdatePart p api_part)) (ret (Some p))
           | None \<Rightarrow>
               bind (resolve_category lib api self api_part) (\<lambda>resolved.
               case resolved of
                 None \<Rightarrow> ret None
               | Some category \<Rightarrow>
                   seq (say Info (CreatingPart (MPN api_part) (cat_pathstring category)))
                  (bind (call_part api (CreatePart (cat_part_category_pk category) api_part))
                     (\<lambda>p. ret (Some p))))) (\<lambda>part'.
     case part' of
       None \<Rightarrow> ret (Inl FAILURE)
     | Some p \<Rightarrow>
         bind (call_pk api (CreateManufacturer (manufacturer api_part))) (\<lambda>manufacturer_pk.
         seq (say Info (CreatingManufacturerPart (MPN api_part)))
        (bind (call_mpart api (CreateManufacturerPart (part_pk p) manufacturer_pk api_part))
           (\<lambda>manufacturer_part. ret (Inr (manufacturer_part, p)))))))"

section \<open>Parameters\<close>

text \<open>
  \<open>select_parameter\<close>: the candidates' parameters ranked by similarity to the
  parameter's name, the first twenty offered above \<open>Enter Value Manually\<close> and
  \<open>Skip\<close>. The result is the pair \<open>(alias, value)\<close>, each possibly \<open>None\<close>. On an
  empty mapping \<open>max\<close> of an empty sequence raises \<open>ValueError\<close>.
\<close>

definition select_parameter ::
  "library \<Rightarrow> 'r collaborator \<Rightarrow> pystr \<Rightarrow> (pystr \<times> pystr) list \<Rightarrow>
   ('r, pystr option \<times> pystr option) prog" where
  "select_parameter lib api parameter_name parameters' =
     (let n = min 20 (length parameters');
          parameter_matches_items =
            sorted_reverse
              (\<lambda>(name, v). max (fuzz_partial_ratio lib parameter_name name)
                               (fuzz_partial_ratio lib parameter_name v))
              parameters';
          parameter_matches = dict_of (take n parameter_matches_items);
          choices = map (\<lambda>(name, v). ChooseParameter v name) parameter_matches
                    @ [EnterManually, Skip]
      in if parameter_matches = [] then raise ValueError
         else
           bind (call_index api (Select choices)) (\<lambda>index.
           if index = n + 1 then ret (None, None)
           else if index < n
           then (case parameter_matches_items ! index of (name, v) \<Rightarrow> ret (Some name, Some v))
           else bind (call_text api (PromptInput (str ''value''))) (\<lambda>v. ret (None, Some v))))"

text \<open>
  Lines 339 to 344 of \<open>setup_parameters\<close>: each raw parameter of the candidate, in
  the mapping's order, is given to the configured parameters its name is an alias of;
  a parameter of the category takes the first value offered to it.
\<close>

definition match_parameters ::
  "(pystr \<times> ParameterConfig list) list \<Rightarrow> Category \<Rightarrow> (pystr \<times> pystr) list \<Rightarrow>
   (pystr \<times> pystr) list" where
  "match_parameters pmap category parameters' =
     foldl (\<lambda>matched (api_part_parameter, v).
       foldl (\<lambda>matched parameter.
           if pconf_name parameter \<in> set (cat_parameters category)
              \<and> pconf_name parameter \<notin> set (map fst matched)
           then dict_set matched (pconf_name parameter) v
           else matched)
         matched
         (case map_of pmap api_part_parameter of None \<Rightarrow> [] | Some ps \<Rightarrow> ps))
       [] parameters'"

text \<open>
  Lines 346 to 349. \<open>already_set_parameters\<close> and \<open>unassigned_parameters\<close> are
  Python sets. The model keeps the elements of a set as a list without repetition;
  where the code iterates over the set (line 353) or prints it (line 407), the
  elements come in the order \<open>set_iter\<close> of the library gives them.
\<close>

definition already_set_parameters :: "(pystr \<times> Parameter) list \<Rightarrow> pystr list" where
  "already_set_parameters existing_parameters =
     map fst (filter (\<lambda>(name, parameter). param_data parameter \<noteq> []) existing_parameters)"

definition unassigned_parameters ::
  "Category \<Rightarrow> (pystr \<times> pystr) list \<Rightarrow> pystr list \<Rightarrow> pystr list" where
  "unassigned_parameters category matched_parameters already_set =
     filter (\<lambda>name. name \<notin> set (map fst matched_parameters) \<and> name \<notin> set already_set)
       (remdups (cat_parameters category))"

text \<open>
  Lines 361 to 373: the alias the user picked a value under is registered for the
  parameter, when exactly one configured parameter has the parameter's name. The
  method assigns \<open>self.parameter_map\<close>.
\<close>

definition register_alias :: "'r collaborator \<Rightarrow> pystr \<Rightarrow> pystr option \<Rightarrow> ('r, unit) prog" where
  "register_alias api parameter_name alias =
     (if \<not> truthy alias then ret ()
      else
        bind get_parameter_map (\<lambda>pmap.
        case map_of pmap parameter_name of
          Some [parameter] \<Rightarrow>
            seq (call_unit api (ParameterAddAlias parameter (the alias)))
              (set_parameter_map
                 (case map_of pmap (the alias) of
                    Some (e # es) \<Rightarrow> dict_set pmap (the alias) ((e # es) @ [parameter])
                  | _ \<Rightarrow> dict_set pmap (the alias) [parameter]))
        | _ \<Rightarrow> say Warning (FailedToAddAlias (the alias) parameter_name)))"

text \<open>
  Lines 353 to 373: the loop over a copy of \<open>unassigned_parameters\<close> in interactive
  mode, whose elements are given in the order of the iteration. It returns
  \<open>matched_parameters\<close> and \<open>unassigned_parameters\<close> as the loop leaves them.
\<close>

fun select_parameters_loop ::
  "library \<Rightarrow> 'r collaborator \<Rightarrow> ApiPart \<Rightarrow> pystr list \<Rightarrow> (pystr \<times> pystr) list \<Rightarrow> pystr list \<Rightarrow>
   ('r, (pystr \<times> pystr) list \<times> pystr list) prog" where
  "select_parameters_loop lib api api_part [] matched unassigned = ret (matched, unassigned)"
| "select_parameters_loop lib api api_part (parameter_name # rest) matched unassigned =
     seq (say Prompt (FailedToMatchValue parameter_name))
    (bind (select_parameter lib api parameter_name (parameters api_part)) (\<lambda>(alias, selected).
     case selected of
       None \<Rightarrow> select_parameters_loop lib api api_part rest matched unassigned
     | Some v \<Rightarrow>
         seq (register_alias api parameter_name alias)
           (select_parameters_loop lib api api_part rest
              (dict_set matched parameter_name v) (removeAll parameter_name unassigned))))"

text \<open>
  The two tasks of the thread pool. In the handler of an \<open>HTTPError\<close>,
  \<open>e.args[0]["body"]\<close> raises where the error has no arguments, a first argument
  that is not a dictionary, or no \<open>body\<close>. \<open>create_parameter\<close> then returns a
  warning text. \<open>update_parameter\<close> formats \<open>parameter.name\<close>, an attribute the
  parameter record does not have, so its handler ends with an \<open>AttributeError\<close>.
\<close>

definition http_error_body :: "http_args \<Rightarrow> ('r, pystr) prog" where
  "http_error_body args =
     (case args of
        NoArgs \<Rightarrow> raise IndexError
      | NonDict \<Rightarrow> raise TypeError
      | DictNoBody \<Rightarrow> raise KeyError
      | DictBody msg _ \<Rightarrow> ret msg)"

definition create_parameter ::
  "'r collaborator \<Rightarrow> Part \<Rightarrow> ParameterTemplate \<Rightarrow> pystr \<Rightarrow> ('r, message option) prog" where
  "create_parameter api part parameter_template v =
     try_except_HTTPError
       (seq (call_unit api (CreateParameter (part_pk part) parameter_template v)) (ret None))
       (\<lambda>args. bind (http_error_body args) (\<lambda>msg.
          ret (Some (FailedToCreateParameter (template_name parameter_template) msg))))"

definition update_parameter ::
  "'r collaborator \<Rightarrow> Parameter \<Rightarrow> pystr \<Rightarrow> ('r, message option) prog" where
  "update_parameter api parameter v =
     try_except_HTTPError
       (seq (call_unit api (SaveParameter parameter v)) (ret None))
       (\<lambda>args. bind (http_error_body args) (\<lambda>msg. raise AttributeError))"

text \<open>
  \<open>thread_pool.apply_async(task, args)\<close>: the task runs in a worker, and what it
  returns or raises is kept in the asynchronous result until \<open>result.get()\<close>. The
  model runs each task when it is submitted, so the tasks run one after the other in
  the order of submission.
\<close>

definition apply_async :: "('r, 'a) prog \<Rightarrow> ('r, exn + 'a) prog" where
  "apply_async task w = (case task w of (res, w') \<Rightarrow> (Inr res, w'))"

text \<open>Lines 377 to 393: the loop over \<open>matched_parameters.items()\<close>.\<close>

fun submit_parameters ::
  "'r collaborator \<Rightarrow> importer \<Rightarrow> Part \<Rightarrow> bool \<Rightarrow> (pystr \<times> Parameter) list \<Rightarrow>
   (pystr \<times> pystr) list \<Rightarrow> (exn + message option) list \<Rightarrow> ImportResult \<Rightarrow>
   ('r, (exn + message option) list \<times> ImportResult) prog" where
  "submit_parameters api self part update_existing existing_parameters [] async_results
     import_result = ret (async_results, import_result)"
| "submit_parameters api self part update_existing existing_parameters ((name, v0) # rest)
     async_results import_result =
     (let v = sanitize_parameter_value v0 in
      if v = []
      then submit_parameters api self part update_existing existing_parameters rest
             async_results import_result
      else
        (case map_of existing_parameters name of
           Some existing_parameter \<Rightarrow>
             if update_existing \<and> param_data existing_parameter \<noteq> v
             then bind (apply_async (update_parameter api existing_parameter v)) (\<lambda>result.
                    submit_parameters api self part update_existing existing_parameters rest
                      (async_results @ [result]) import_result)
             else submit_parameters api self part update_existing existing_parameters rest
                    async_results import_result
         | None \<Rightarrow>
             (case map_of (parameter_templates self) name of
                Some parameter_template \<Rightarrow>
                  bind (apply_async (create_parameter api part parameter_template v)) (\<lambda>result.
                    submit_parameters api self part update_existing existing_parameters rest
                      (async_results @ [result]) import_result)
              | None \<Rightarrow>
                  if \<not> dry_run self
                  then seq (say Warning (FailedToFindTemplate name))
                         (submit_parameters api self part update_existing existing_parameters
                            rest async_results (result_or import_result INCOMPLETE))
                  else submit_parameters api self part update_existing existing_parameters
                         rest async_results import_result)))"

text \<open>
  Lines 398 to 401: \<open>result.get()\<close> raises again what the task raised, and a
  warning text degrades the result.
\<close>

fun collect_results :: "(exn + message option) list \<Rightarrow> ImportResult \<Rightarrow> ('r, ImportResult) prog" where
  "collect_results [] import_result = ret import_result"
| "collect_results (Inl e # rest) import_result = raise e"
| "collect_results (Inr None # rest) import_result = collect_results rest import_result"
| "collect_results (Inr (Some warning_str) # rest) import_result =
     seq (say Warning warning_str)
       (collect_results rest (result_or import_result INCOMPLETE))"

fun print_parameters :: "(pystr \<times> pystr) list \<Rightarrow> ('r, unit) prog" where
  "print_parameters [] = ret ()"
| "print_parameters ((name, v) # rest) =
     seq (say Print (AvailableParameter name v)) (print_parameters rest)"

text \<open>
  Lines 351 to 373 of \<open>setup_parameters\<close>: in interactive mode the user is asked
  for the parameters left unassigned.
\<close>

definition select_unassigned ::
  "library \<Rightarrow> 'r collaborator \<Rightarrow> importer \<Rightarrow> ApiPart \<Rightarrow> (pystr \<times> pystr) list \<Rightarrow> pystr list \<Rightarrow>
   ('r, (pystr \<times> pystr) list \<times> pystr list) prog" where
  "select_unassigned lib api self api_part matched_parameters unassigned =
     (if unassigned \<noteq> [] \<and> interactive self
      then seq (say Prompt (FailedToMatchSome (supplier_link api_part)))
             (select_parameters_loop lib api api_part (set_iter lib unassigned)
                matched_parameters unassigned)
      else ret (matched_parameters, unassigned))"

text \<open>
  Lines 375 to 411: the matched values are written through the thread pool, the
  warnings of the tasks are collected, and the parameters still unassigned are
  reported.
\<close>

definition write_parameters ::
  "library \<Rightarrow> 'r collaborator \<Rightarrow> importer \<Rightarrow> Part \<Rightarrow> bool \<Rightarrow> (pystr \<times> Parameter) list \<Rightarrow>
   (pystr \<times> pystr) list \<Rightarrow> pystr list \<Rightarrow> ('r, ImportResult) prog" where
  "write_parameters lib api self part update_existing existing_parameters matched_parameters
     unassigned =
     bind (submit_parameters api self part update_existing existing_parameters
             matched_parameters [] SUCCESS) (\<lambda>(async_results, import_result).
     seq (if async_results \<noteq> [] then say Info UpdatingPartParameters else ret ())
    (bind (collect_results async_results import_result) (\<lambda>import_result.
     if unassigned \<noteq> []
     then seq (say Warning (FailedToMatchParameters (set_iter lib unassigned)))
            (ret (result_or import_result INCOMPLETE))
     else ret import_result)))"

text \<open>
  \<open>setup_parameters\<close>. Outside a dry run the method is only called with a part;
  \<open>part.category\<close> on \<open>None\<close> would be an \<open>AttributeError\<close>. The lists of
  \<open>parameter_map\<close> are taken as separate objects, so appending to one changes the
  entry of one alias.
\<close>

definition setup_parameters ::
  "library \<Rightarrow> 'r collaborator \<Rightarrow> importer \<Rightarrow> Part option \<Rightarrow> ApiPart \<Rightarrow> bool \<Rightarrow>
   ('r, ImportResult) prog" where
  "setup_parameters lib api self part' api_part update_existing =
     (case part' of
        None \<Rightarrow> if dry_run self then ret SUCCESS else raise AttributeError
      | Some part \<Rightarrow>
         (case map_of (part_category_to_category self) (part_category part) of
            None \<Rightarrow>
              bind (call_text api (GetCategoryPathstring part)) (\<lambda>name.
              seq (say Error (CategoryNotDefined name)) (ret FAILURE))
          | Some category \<Rightarrow>
              bind (call_parameters api (ListParameters (part_pk part))) (\<lambda>listed.
              seq (say Print AvailableParameters)
             (seq (print_parameters (parameters api_part))
             (bind get_parameter_map (\<lambda>pmap.
              bind (select_unassigned lib api self api_part
                      (match_parameters pmap category (parameters api_part))
                      (unassigned_parameters category
                         (match_parameters pmap category (parameters api_part))
                         (already_set_parameters
                            (dict_of (map (\<lambda>parameter. (param_template_name parameter, parameter))
                               listed)))))
                (\<lambda>(matched_parameters, unassigned).
              write_parameters lib api self part update_existing
                (dict_of (map (\<lambda>parameter. (param_template_name parameter, parameter)) listed))
                matched_parameters unassigned)))))))"

section \<open>Importing one candidate\<close>

text \<open>
  Lines 152 to 164 of \<open>import_supplier_part\<close>: the manufacturer part to use. The
  result is \<open>Inl\<close> for an early \<open>return\<close> of the method, and otherwise the
  manufacturer part with \<open>part\<close> and the candidate as the branch leaves them.
\<close>

definition resolve_manufacturer_part ::
  "library \<Rightarrow> 'r collaborator \<Rightarrow> importer \<Rightarrow> ApiPart \<Rightarrow> Part option \<Rightarrow> SupplierPart option \<Rightarrow>
   ('r, ImportResult + ManufacturerPart \<times> Part option \<times> ApiPart) prog" where
  "resolve_manufacturer_part lib api self api_part part supplier_part =
     (case (case supplier_part of
              None \<Rightarrow> None
            | Some sp \<Rightarrow> spart_manufacturer_part sp) of
        Some linked \<Rightarrow>
          bind (call_mpart api (FetchManufacturerPart linked)) (\<lambda>manufacturer_part.
          ret (Inr (manufacturer_part, part, api_part)))
      | None \<Rightarrow>
          bind (call_mpart_opt api (GetManufacturerPart (MPN api_part))) (\<lambda>found.
          case found of
            Some manufacturer_part \<Rightarrow> ret (Inr (manufacturer_part, part, api_part))
          | None \<Rightarrow>
              bind get_existing_manufacturer_part (\<lambda>existing.
              case existing of
                Some manufacturer_part \<Rightarrow> ret (Inr (manufacturer_part, part, api_part))
              | None \<Rightarrow>
                  bind (call_finalize api api_part) (\<lambda>(ok, api_part).
                  if \<not> ok then ret (Inl FAILURE)
                  else
                    bind (create_manufacturer_part lib api self api_part part) (\<lambda>result.
                    case result of
                      Inl failure \<Rightarrow> ret (Inl failure)
                    | Inr (manufacturer_part, part) \<Rightarrow>
                        ret (Inr (manufacturer_part, Some part, api_part)))))))"

text \<open>Lines 184 to 195: the datasheet, by the configured mode.\<close>

definition attach_datasheet ::
  "library \<Rightarrow> 'r collaborator \<Rightarrow> importer \<Rightarrow> Part \<Rightarrow> ApiPart \<Rightarrow> ('r, unit) prog" where
  "attach_datasheet lib api self part api_part =
     bind (call_texts api (GetAttachments part)) (\<lambda>attachment_types.
     if str ''datasheet'' \<notin> set attachment_types \<and> truthy (datasheet_url api_part)
     then (case datasheets self of
             Upload \<Rightarrow> call_unit api (UploadDatasheet part (the (datasheet_url api_part)))
           | Link \<Rightarrow>
               call_unit api
                 (AddLinkAttachment part (take 200 (quote lib (the (datasheet_url api_part)))))
           | Disabled \<Rightarrow> ret ()
           | InvalidMode invalid_mode \<Rightarrow> say Warning (InvalidDatasheets invalid_mode))
     else ret ())"

text \<open>
  Lines 170 to 195: the block under \<open>if not self.dry_run\<close>. The result is \<open>Inl\<close>
  for the early \<open>return\<close>, and otherwise \<open>part\<close> and the candidate as the block
  leaves them.
\<close>

definition update_part_block ::
  "library \<Rightarrow> 'r collaborator \<Rightarrow> importer \<Rightarrow> ApiPart \<Rightarrow> Part option \<Rightarrow> ManufacturerPart \<Rightarrow> bool \<Rightarrow>
   ('r, ImportResult + Part option \<times> ApiPart) prog" where
  "update_part_block lib api self api_part part' manufacturer_part update_part =
     (if dry_run self then ret (Inr (part', api_part))
      else
        bind (case part' of
                None \<Rightarrow> call_part api (FetchPart (mpart_part manufacturer_part))
              | Some p \<Rightarrow>
                  if part_pk p \<noteq> mpart_part manufacturer_part
                  then seq (call_unit api (UpdateManufacturerPart manufacturer_part (part_pk p)))
                         (ret p)
                  else ret p) (\<lambda>part.
        bind (if update_part
              then bind (call_finalize api api_part) (\<lambda>(ok, api_part).
                     if \<not> ok then ret None
                     else seq (call_unit api (UpdatePart part api_part)) (ret (Some api_part)))
              else ret (Some api_part)) (\<lambda>finalized.
        case finalized of
          None \<Rightarrow> ret (Inl FAILURE)
        | Some api_part \<Rightarrow>
            seq (if \<not> truthy (part_image part) \<and> truthy (image_url api_part)
                 then call_unit api (UploadImage part (the (image_url api_part)))
                 else ret ())
           (seq (attach_datasheet lib api self part api_part)
              (ret (Inr (Some part, api_part)))))))"

text \<open>
  Lines 201 to 226: the manufacturer part becomes the established one, the supplier
  part is updated or created, its price breaks are synchronized, and stock is added
  when a stock location is given (\<open>None\<close> and \<open>0\<close> are false).
\<close>

definition store_supplier_part ::
  "library \<Rightarrow> 'r collaborator \<Rightarrow> importer \<Rightarrow> Company \<Rightarrow> ApiPart \<Rightarrow> Part option \<Rightarrow>
   ManufacturerPart \<Rightarrow> SupplierPart option \<Rightarrow> pk option \<Rightarrow> int \<Rightarrow> ImportResult \<Rightarrow>
   ('r, ImportResult) prog" where
  "store_supplier_part lib api self supplier api_part part manufacturer_part supplier_part
     update_stock_location update_stock_amount import_result =
     seq (set_existing_manufacturer_part (Some manufacturer_part))
    (bind (if dry_run self then ret 0
           else (case part of None \<Rightarrow> raise AttributeError | Some p \<Rightarrow> ret (part_pk p)))
       (\<lambda>part_id.
     let supplier_part_data =
           \<lparr>spd_part = part_id, spd_manufacturer_part = mpart_pk manufacturer_part,
            spd_supplier = company_pk supplier, spd_SKU = SKU api_part,
            spd_api_part = api_part\<rparr>
     in
     bind (case supplier_part of
             Some sp \<Rightarrow>
               seq (call_unit api (UpdateSupplierPart sp supplier_part_data))
                 (ret (str ''updated'', sp))
           | None \<Rightarrow>
               bind (call_spart api (CreateSupplierPart supplier_part_data)) (\<lambda>sp.
               ret (str ''added'', sp))) (\<lambda>(action_str, supplier_part).
     seq (setup_price_breaks lib api supplier_part api_part)
    (seq (say Success
            (SupplierPartDone action_str (company_name supplier) (spart_SKU supplier_part)
               (base_url self @ drop 1 (spart_url supplier_part))))
    (seq (case update_stock_location of
            None \<Rightarrow> ret ()
          | Some location \<Rightarrow>
              if location = 0 then ret ()
              else call_unit api (AddStock location part_id update_stock_amount))
       (ret import_result))))))"

definition import_supplier_part ::
  "library \<Rightarrow> 'r collaborator \<Rightarrow> importer \<Rightarrow> Company \<Rightarrow> ApiPart \<Rightarrow> Part option \<Rightarrow> pk option \<Rightarrow>
   int \<Rightarrow> ('r, ImportResult) prog" where
  "import_supplier_part lib api self supplier api_part part update_stock_location
     update_stock_amount =
     bind (call_spart_opt api (GetSupplierPart (SKU api_part))) (\<lambda>supplier_part.
     seq (case supplier_part of
            Some sp \<Rightarrow> say Info (FoundExisting (company_name supplier) (spart_SKU sp))
          | None \<Rightarrow> say Info (Importing (company_name supplier) (SKU api_part)))
    (bind (resolve_manufacturer_part lib api self api_part part supplier_part) (\<lambda>resolved.
     case resolved of
       Inl early \<Rightarrow> ret early
     | Inr (manufacturer_part, part, api_part) \<Rightarrow>
         bind get_existing_manufacturer_part (\<lambda>existing.
         let update_part =
               (case existing of
                  None \<Rightarrow> True
                | Some e \<Rightarrow> mpart_pk e \<noteq> mpart_pk manufacturer_part)
         in
         bind (update_part_block lib api self api_part part manufacturer_part update_part)
           (\<lambda>updated.
         case updated of
           Inl early \<Rightarrow> ret early
         | Inr (part, api_part) \<Rightarrow>
             bind (if parameters api_part \<noteq> []
                   then bind (setup_parameters lib api self part api_part update_part)
                          (\<lambda>result. ret (result_or SUCCESS result))
                   else ret SUCCESS) (\<lambda>import_result.
             store_supplier_part lib api self supplier api_part part manufacturer_part
               supplier_part update_stock_location update_stock_amount import_result))))))"

section \<open>Importing a search term\<close>

text \<open>
  \<open>select_api_part\<close>: one line per candidate and \<open>Skip\<close>; the result is
  \<open>[*api_parts, None][index]\<close>. On an empty list \<open>max\<close> raises \<open>ValueError\<close>.
\<close>

definition select_api_part :: "'r collaborator \<Rightarrow> ApiPart list \<Rightarrow> ('r, ApiPart option) prog" where
  "select_api_part api api_parts =
     (if api_parts = [] then raise ValueError
      else
        bind (call_index api (Select (map ChoosePart api_parts @ [Skip]))) (\<lambda>index.
        if index < length api_parts then ret (Some (api_parts ! index))
        else if index = length api_parts then ret None
        else raise IndexError))"

text \<open>Lines 74 to 87 of \<open>import_part\<close>: the candidate to import, if any.\<close>

definition choose_result ::
  "'r collaborator \<Rightarrow> importer \<Rightarrow> Company \<Rightarrow> ApiPart list \<Rightarrow> int \<Rightarrow> ('r, ApiPart option) prog" where
  "choose_result api self supplier results result_count =
     (if length results = 1 then ret (Some (hd results))
      else if interactive self
      then
        seq (say Prompt (FoundMultipleParts (company_name supplier)))
       (let results = slice_to results (max_results self) in
        seq (if result_count > int (length results)
             then say Hint (OnlyShowingFirst result_count (length results))
             else ret ())
          (select_api_part api results))
      else
        seq (say Warning (FoundPartsSkipping result_count (company_name supplier)))
          (ret None))"

text \<open>
  Lines 94 to 105: the handler of \<open>HTTPError\<close>. \<open>json.loads(body).items()\<close> is an
  \<open>AttributeError\<close> when the body is JSON but not an object; only
  \<open>JSONDecodeError\<close> is caught around it.
\<close>

definition error_str :: "http_args \<Rightarrow> ('r, error_detail) prog" where
  "error_str args =
     (case args of
        DictBody body json \<Rightarrow>
          if body = [] then ret UnknownHTTPError
          else (case json of
                  JSONDecodeError \<Rightarrow> ret UnknownHTTPError
                | JObject items \<Rightarrow> ret (ErrorItems items)
                | JOther \<Rightarrow> raise AttributeError)
      | _ \<Rightarrow> ret UnknownHTTPError)"

definition handle_HTTPError :: "importer \<Rightarrow> http_args \<Rightarrow> ('r, ImportResult) prog" where
  "handle_HTTPError self args =
     bind (error_str args) (\<lambda>detail.
     seq (say Error (FailedToImport detail))
    (seq (if verbose self then say Error FullTraceback else ret ())
       (ret ERROR)))"

text \<open>Lines 109 and 110: \<open>wait\<close> on every asynchronous search result.\<close>

fun wait_all :: "'r collaborator \<Rightarrow> (Company \<times> nat) list \<Rightarrow> ('r, unit) prog" where
  "wait_all api [] = ret ()"
| "wait_all api ((supplier, other_results) # rest) =
     seq (call_unit api (AsyncWait other_results)) (wait_all api rest)"

text \<open>
  The loop of \<open>import_part\<close> over the search results, with the whole list for the
  waits. \<open>Inl\<close> is the \<open>return\<close> inside the loop, \<open>Inr\<close> the value of
  \<open>import_result\<close> when the loop ends.
\<close>

fun supplier_loop ::
  "library \<Rightarrow> 'r collaborator \<Rightarrow> importer \<Rightarrow> Part option \<Rightarrow> pk option \<Rightarrow> int \<Rightarrow>
   (Company \<times> nat) list \<Rightarrow> (Company \<times> nat) list \<Rightarrow> ImportResult \<Rightarrow>
   ('r, ImportResult + ImportResult) prog" where
  "supplier_loop lib api self existing_part update_stock_location update_stock_amount
     search_results [] import_result = ret (Inr import_result)"
| "supplier_loop lib api self existing_part update_stock_location update_stock_amount
     search_results ((supplier, async_results) # rest) import_result =
     seq (say Info (SearchingAt (company_name supplier)))
    (bind (call_results api (AsyncGet async_results)) (\<lambda>(results, result_count).
     if results = []
     then seq (say Hint (NoResultsAt (company_name supplier)))
            (supplier_loop lib api self existing_part update_stock_location
               update_stock_amount search_results rest import_result)
     else
       bind (choose_result api self supplier results result_count) (\<lambda>chosen.
       case chosen of
         None \<Rightarrow>
           supplier_loop lib api self existing_part update_stock_location update_stock_amount
             search_results rest (result_or import_result INCOMPLETE)
       | Some api_part \<Rightarrow>
           bind (try_except_HTTPError
                   (bind (import_supplier_part lib api self supplier api_part existing_part
                            update_stock_location update_stock_amount)
                      (\<lambda>result. ret (result_or import_result result)))
                   (handle_HTTPError self)) (\<lambda>import_result.
           if import_result = ERROR
           then seq (wait_all api search_results) (ret (Inl ERROR))
           else supplier_loop lib api self existing_part update_stock_location
                  update_stock_amount search_results rest import_result))))"

definition import_part ::
  "library \<Rightarrow> 'r collaborator \<Rightarrow> importer \<Rightarrow> pystr \<Rightarrow> Part option \<Rightarrow> pystr option \<Rightarrow> bool \<Rightarrow>
   pk option \<Rightarrow> int \<Rightarrow> ('r, ImportResult) prog" where
  "import_part lib api self search_term existing_part supplier_id only_supplier
     update_stock_location update_stock_amount =
     seq (say Info (SearchingFor search_term))
    (seq (set_existing_manufacturer_part None)
    (bind (call_search api (Search search_term supplier_id only_supplier)) (\<lambda>search_results.
     bind (supplier_loop lib api self existing_part update_stock_location update_stock_amount
             search_results search_results SUCCESS) (\<lambda>finished.
     case finished of
       Inl early \<Rightarrow> ret early
     | Inr import_result \<Rightarrow>
         bind get_existing_manufacturer_part (\<lambda>existing.
         ret (if existing = None then result_or import_result FAILURE
              else import_result))))))"

section \<open>The DigiKey adapter\<close>

text \<open>
  A product as the DigiKey client returns it, with the attributes \<open>get_api_part\<close>
  reads. \<open>is_product_details\<close> is \<open>isinstance(digikey_part,
  ProductDetailsResponse)\<close>; \<open>media_links\<close> pairs \<open>media_type\<close> with \<open>url\<close>.
\<close>

record DigikeyPart =
  dk_quantity_available :: int
  dk_manufacturer_public_quantity :: int
  dk_is_product_details :: bool
  dk_media_links :: "(pystr \<times> pystr) list"
  dk_category :: pystr
  dk_family :: pystr
  dk_parameters :: "(pystr \<times> pystr) list"
  dk_standard_pricing :: "(rat \<times> rat) list"
  dk_product_description :: pystr
  dk_primary_photo :: "pystr option"
  dk_product_url :: pystr
  dk_digi_key_part_number :: pystr
  dk_manufacturer :: pystr
  dk_manufacturer_part_number :: pystr
  dk_packaging :: pystr

record KeywordSearchResponse =
  exact_manufacturer_products_count :: int
  exact_manufacturer_products :: "DigikeyPart list"
  products :: "DigikeyPart list"
  products_count :: int

text \<open>
  The two calls of the DigiKey client, each answering or raising, and \<open>str.lower\<close>
  of the Python runtime.
\<close>

record digikey_client =
  product_details :: "pystr \<Rightarrow> exn + DigikeyPart option"
  keyword_search :: "pystr \<Rightarrow> nat \<Rightarrow> exn + KeywordSearchResponse"
  lower :: "pystr \<Rightarrow> pystr"

text \<open>\<open>s.split(sep)\<close> for a non-empty separator, and \<open>s.startswith(p)\<close>.\<close>

fun split_from :: "'a list \<Rightarrow> 'a list \<Rightarrow> 'a list \<Rightarrow> 'a list list" where
  "split_from sep acc [] = [acc]"
| "split_from sep acc (c # cs) =
     (if take (length sep) (c # cs) = sep
      then acc # split_from sep [] (drop (length sep - 1) cs)
      else split_from sep (acc @ [c]) cs)"

definition str_split :: "'a list \<Rightarrow> 'a list \<Rightarrow> 'a list list" where
  "str_split s sep = split_from sep [] s"

definition startswith :: "'a list \<Rightarrow> 'a list \<Rightarrow> bool" where
  "startswith s p \<longleftrightarrow> take (length p) s = p"

text \<open>The first media link of the type \<open>Manufacturer Product Page\<close>, or the empty text.\<close>

fun manufacturer_page :: "(pystr \<times> pystr) list \<Rightarrow> pystr" where
  "manufacturer_page [] = []"
| "manufacturer_page ((media_type, url) # rest) =
     (if media_type = str ''Manufacturer Product Page'' then url else manufacturer_page rest)"

definition get_api_part :: "pystr \<Rightarrow> DigikeyPart \<Rightarrow> ApiPart" where
  "get_api_part self_currency digikey_part =
     \<lparr>description = dk_product_description digikey_part,
      image_url = dk_primary_photo digikey_part,
      datasheet_url = None,
      supplier_link = dk_product_url digikey_part,
      SKU = dk_digi_key_part_number digikey_part,
      manufacturer = dk_manufacturer digikey_part,
      manufacturer_link =
        (if dk_is_product_details digikey_part
         then manufacturer_page (dk_media_links digikey_part) else []),
      MPN = dk_manufacturer_part_number digikey_part,
      quantity_available =
        dk_quantity_available digikey_part + dk_manufacturer_public_quantity digikey_part,
      packaging = dk_packaging digikey_part,
      category_path = dk_category digikey_part # str_split (dk_family digikey_part) (str '' - ''),
      parameters = dict_of (dk_parameters digikey_part),
      price_breaks = dict_of (dk_standard_pricing digikey_part),
      currency = self_currency\<rparr>"

text \<open>\<open>DigiKey.search\<close>: the candidates and the result count, or the exception raised.\<close>

definition digikey_search ::
  "digikey_client \<Rightarrow> pystr \<Rightarrow> pystr \<Rightarrow> exn + ApiPart list \<times> int" where
  "digikey_search client self_currency search_term =
     (case product_details client search_term of
        Inl e \<Rightarrow> Inl e
      | Inr (Some digikey_part) \<Rightarrow> Inr ([get_api_part self_currency digikey_part], 1)
      | Inr None \<Rightarrow>
          (case keyword_search client search_term 10 of
             Inl e \<Rightarrow> Inl e
           | Inr results \<Rightarrow>
               let (filtered_results, product_count) =
                     (if exact_manufacturer_products_count results > 0
                      then (exact_manufacturer_products results,
                            exact_manufacturer_products_count results)
                      else (filter (\<lambda>digikey_part.
                                      startswith
                                        (lower client (dk_manufacturer_part_number digikey_part))
                                        (lower client search_term))
                              (products results),
                            products_count results));
                   exact_matches =
                     filter (\<lambda>digikey_part.
                               lower client (dk_manufacturer_part_number digikey_part)
                               = lower client search_term)
                       filtered_results
               in if length exact_matches = 1
                  then Inr (map (get_api_part self_currency) exact_matches, 1)
                  else Inr (map (get_api_part self_currency) filtered_results, product_count)))"

section \<open>Reading a trace\<close>

text \<open>The requests of a trace, in order, and the console output of a trace.\<close>

fun requests :: "event list \<Rightarrow> request list" where
  "requests [] = []"
| "requests (Called rq rep # es) = rq # requests es"
| "requests (Said l m # es) = requests es"

fun said :: "event list \<Rightarrow> (level \<times> message) list" where
  "said [] = []"
| "said (Called rq rep # es) = said es"
| "said (Said l m # es) = (l, m) # said es"

text \<open>
  The write the specification asks of the price break synchronizer for one tier of the
  candidate, written from its sentence: nothing when a record exists for the quantity
  with an equal price, an update of the record when its price differs, a new record
  when there is none.
\<close>

definition spec_price_write ::
  "library \<Rightarrow> SupplierPart \<Rightarrow> ApiPart \<Rightarrow> (rat \<times> SupplierPriceBreak) list \<Rightarrow> rat \<times> rat \<Rightarrow>
   request option" where
  "spec_price_write lib supplier_part api_part stored tier =
     (case map_of stored (fst tier) of
        Some price_break \<Rightarrow>
          if py_float lib (pbreak_price price_break) = Some (snd tier) then None
          else Some (SavePriceBreak price_break (snd tier) (currency api_part))
      | None \<Rightarrow>
          Some (CreatePriceBreak (spart_pk supplier_part) (fst tier) (snd tier)
                  (currency api_part)))"


text \<open>
  Kinds of events: what asks the user or registers a category alias; the writes of a
  part's parameters; the report of the parameters left unmatched.
\<close>

fun is_prompt :: "event \<Rightarrow> bool" where
  "is_prompt (Called (Select choices) rep) = True"
| "is_prompt (Called (PromptInput label) rep) = True"
| "is_prompt (Called (CategoryAddAlias category alias) rep) = True"
| "is_prompt (Said Prompt m) = True"
| "is_prompt e = False"



text \<open>
  \<open>emits m P\<close>: every run of \<open>m\<close> extends the trace by events that satisfy \<open>P\<close>.
  \<open>yields m Q\<close>: every value \<open>m\<close> returns satisfies \<open>Q\<close>.
\<close>

definition emits :: "('r, 'a) prog \<Rightarrow> (event \<Rightarrow> bool) \<Rightarrow> bool" where
  "emits m P \<longleftrightarrow>
     (\<forall>w res w'. m w = (res, w') \<longrightarrow> (\<exists>seg. trace w' = trace w @ seg \<and> (\<forall>e \<in> set seg. P e)))"

definition yields :: "('r, 'a) prog \<Rightarrow> ('a \<Rightarrow> bool) \<Rightarrow> bool" where
  "yields m Q \<longleftrightarrow> (\<forall>w x w'. m w = (Inr x, w') \<longrightarrow> Q x)"

subsection \<open>What the specification says of the parameters\<close>



text \<open>
  A name is matched from the candidate's raw parameters when one of their names is an
  alias of a configured parameter of that name.
\<close>

definition matched_by_alias ::
  "(pystr \<times> ParameterConfig list) list \<Rightarrow> (pystr \<times> pystr) list \<Rightarrow> pystr \<Rightarrow> bool" where
  "matched_by_alias pmap raw name \<longleftrightarrow>
     (\<exists>(alias, v) \<in> set raw.
        case map_of pmap alias of
          None \<Rightarrow> False
        | Some configured \<Rightarrow> name \<in> pconf_name ` set configured)"

text \<open>
  A name is resolved interactively when the prompt for its value is followed by a
  selection the user answers with another entry than the last one, \<open>Skip\<close>.
  \<open>resolved\<close> reads these names off a trace.
\<close>

fun prompted_name :: "event \<Rightarrow> pystr option" where
  "prompted_name (Said Prompt (FailedToMatchValue name)) = Some name"
| "prompted_name e = None"

fun selected_index :: "event \<Rightarrow> (nat \<times> nat) option" where
  "selected_index (Called (Select choices) (Ok (RIndex index))) = Some (index, length choices)"
| "selected_index e = None"

fun resolved :: "event list \<Rightarrow> pystr list" where
  "resolved (e # e' # es) =
     (case (prompted_name e, selected_index e') of
        (Some name, Some (index, n)) \<Rightarrow>
          if Suc index = n then resolved (e' # es) else name # resolved (e' # es)
      | _ \<Rightarrow> resolved (e' # es))"
| "resolved es = []"






section \<open>Example data\<close>

text \<open>
  A library, a candidate and a repository state for the examples that instantiate the
  theorems below.
\<close>

definition example_library :: library where
  "example_library =
     \<lparr>fuzz_ratio = (\<lambda>a b. 0), fuzz_partial_ratio = (\<lambda>a b. 0), quote = (\<lambda>s. s),
      py_float = (\<lambda>s. if s = str ''1.00'' then Some 1
                       else if s = str ''0.90'' then Some (9 / 10) else None),
      set_iter = rev\<rparr>"

definition empty_world :: "unit world" where
  "empty_world = \<lparr>repo = (), trace = [], parameter_map = [], existing_manufacturer_part = None\<rparr>"

definition example_candidate :: ApiPart where
  "example_candidate =
     \<lparr>description = str ''resistor'', image_url = None, datasheet_url = None,
      supplier_link = str ''http://s/1'', SKU = str ''S-1'', manufacturer = str ''ACME'',
      manufacturer_link = [], MPN = str ''R-10K'', quantity_available = 5,
      packaging = str ''reel'', category_path = [str ''Passives'', str ''Resistors''],
      parameters = [(str ''Resistance'', str ''10 kOhm'')],
      price_breaks = [(10, 1), (100, 4 / 5)], currency = str ''EUR''\<rparr>"

definition stored_price_breaks :: "SupplierPriceBreak list" where
  "stored_price_breaks =
     [\<lparr>pbreak_pk = 1, pbreak_quantity = 10, pbreak_price = str ''1.00''\<rparr>,
      \<lparr>pbreak_pk = 2, pbreak_quantity = 50, pbreak_price = str ''0.90''\<rparr>]"

definition example_supplier_part :: SupplierPart where
  "example_supplier_part =
     \<lparr>spart_pk = 7, spart_SKU = str ''S-1'', spart_manufacturer_part = Some 3,
      spart_url = str ''/supplier-part/7/''\<rparr>"

fun price_repository :: "request \<Rightarrow> unit \<Rightarrow> reply \<times> unit" where
  "price_repository (ListPriceBreaks p) r = (Ok (RPriceBreaks stored_price_breaks), r)"
| "price_repository rq r = (Ok RNone, r)"


text \<open>
  A DigiKey client for the examples: no product has the search term as its DigiKey
  number, and the keyword search finds two products.
\<close>

definition ascii_lower :: "pystr \<Rightarrow> pystr" where
  "ascii_lower s = map (\<lambda>c. if 65 \<le> c \<and> c \<le> 90 then c + 32 else c) s"

definition example_product :: "pystr \<Rightarrow> DigikeyPart" where
  "example_product mpn =
     \<lparr>dk_quantity_available = 40, dk_manufacturer_public_quantity = 2,
      dk_is_product_details = False, dk_media_links = [],
      dk_category = str ''Resistors'', dk_family = str ''Chip Resistor - Surface Mount'',
      dk_parameters = [(str ''Resistance'', str ''10 kOhms'')],
      dk_standard_pricing = [(1, 1 / 10), (10, 1 / 20)],
      dk_product_description = str ''RES 10K'', dk_primary_photo = None,
      dk_product_url = str ''http://d/p'', dk_digi_key_part_number = mpn @ str ''-ND'',
      dk_manufacturer = str ''ACME'', dk_manufacturer_part_number = mpn,
      dk_packaging = str ''Tape''\<rparr>"

definition example_response :: KeywordSearchResponse where
  "example_response =
     \<lparr>exact_manufacturer_products_count = 0, exact_manufacturer_products = [],
      products = [example_product (str ''ABC''), example_product (str ''ABCD'')],
      products_count = 2\<rparr>"

definition example_client :: digikey_client where
  "example_client =
     \<lparr>product_details = (\<lambda>search_term. Inr None),
      keyword_search = (\<lambda>search_term record_count. Inr example_response),
      lower = ascii_lower\<rparr>"


text \<open>
  An importer with one configured category, and a repository that knows no part, no
  manufacturer part and no supplier part, and answers every creation. Two suppliers
  answer a search, each with one candidate for the same manufacturer part number.
\<close>

definition example_category :: Category where
  "example_category =
     \<lparr>cat_name = str ''Resistors'', cat_path = [str ''Passives'', str ''Resistors''],
      cat_parameters = [str ''Resistance'', str ''Tolerance''], cat_part_category_pk = 5,
      cat_pathstring = str ''Passives/Resistors''\<rparr>"

definition example_importer :: "bool \<Rightarrow> bool \<Rightarrow> importer" where
  "example_importer interactive' dry_run' =
     \<lparr>interactive = interactive', verbose = False, dry_run = dry_run',
      base_url = str ''http://inv/'',
      category_map = [(str ''Resistors'', example_category)],
      parameter_templates =
        [(str ''Resistance'', \<lparr>template_pk = 11, template_name = str ''Resistance''\<rparr>)],
      max_results = 10, datasheets = Disabled\<rparr>"

definition example_parameter_map :: "(pystr \<times> ParameterConfig list) list" where
  "example_parameter_map = [(str ''Resistance'', [\<lparr>pconf_name = str ''Resistance''\<rparr>])]"

definition other_candidate :: ApiPart where
  "other_candidate = example_candidate\<lparr>SKU := str ''T-9'', supplier_link := str ''http://t/9''\<rparr>"

definition unknown_candidate :: ApiPart where
  "unknown_candidate = example_candidate\<lparr>category_path := [str ''Unknown'', str ''Things'']\<rparr>"

definition first_supplier :: Company where
  "first_supplier = \<lparr>company_pk = 61, company_name = str ''First''\<rparr>"

definition second_supplier :: Company where
  "second_supplier = \<lparr>company_pk = 62, company_name = str ''Second''\<rparr>"

fun fresh_repository :: "request \<Rightarrow> unit \<Rightarrow> reply \<times> unit" where
  "fresh_repository (GetSupplierPart sku) r = (Ok (RSupplierPart None), r)"
| "fresh_repository (GetManufacturerPart mpn) r = (Ok (RManufacturerPart None), r)"
| "fresh_repository (GetPart mpn) r = (Ok (RPart None), r)"
| "fresh_repository (Finalize api_part) r = (Ok (RFinalized True api_part), r)"
| "fresh_repository (CreatePart category api_part) r =
     (Ok (RPart (Some \<lparr>part_pk = 21, part_category = category, part_image = None\<rparr>)), r)"
| "fresh_repository (FetchPart p) r =
     (Ok (RPart (Some \<lparr>part_pk = p, part_category = 5, part_image = None\<rparr>)), r)"
| "fresh_repository (CreateManufacturer name) r = (Ok (RPk 31), r)"
| "fresh_repository (CreateManufacturerPart p m api_part) r =
     (Ok (RManufacturerPart (Some \<lparr>mpart_pk = 41, mpart_part = p\<rparr>)), r)"
| "fresh_repository (GetAttachments p) r = (Ok (RTexts []), r)"
| "fresh_repository (ListParameters p) r = (Ok (RParameters []), r)"
| "fresh_repository (CreateSupplierPart d) r =
     (Ok (RSupplierPart (Some \<lparr>spart_pk = 51, spart_SKU = spd_SKU d,
            spart_manufacturer_part = Some (spd_manufacturer_part d),
            spart_url = str ''/sp/51/''\<rparr>)), r)"
| "fresh_repository (ListPriceBreaks p) r = (Ok (RPriceBreaks []), r)"
| "fresh_repository (Search search_term supplier_id only_supplier) r =
     (Ok (RSearch [(first_supplier, 0), (second_supplier, 1)]), r)"
| "fresh_repository (AsyncGet h) r =
     (Ok (RResults [if h = 0 then example_candidate else other_candidate] 1), r)"
| "fresh_repository rq r = (Ok RNone, r)"














section \<open>Properties of the severity merge\<close>

text \<open>
  Claim C4. The merge \<open>result_or\<close> is commutative and associative, every severity is
  idempotent under it, \<open>ERROR\<close> absorbs on either side, and the merge of two severities
  is the more severe one under the order \<open>SUCCESS < INCOMPLETE < FAILURE < ERROR\<close>: its
  rank is the maximum of the two ranks. That order is strict and total on the four
  severities, and it is the reverse of the order of the enumeration's numeric values.
\<close>

theorem result_or_merge:
  "result_or x y = result_or y x \<and>
   result_or (result_or x y) z = result_or x (result_or y z) \<and>
   result_or x x = x \<and>
   result_or x ERROR = ERROR \<and> result_or ERROR x = ERROR \<and>
   spec_severity (result_or x y) = max (spec_severity x) (spec_severity y) \<and>
   (spec_severity x = spec_severity y) = (x = y) \<and>
   (spec_severity x < spec_severity y) = (result_value y < result_value x)"
  by (cases x; cases y; cases z) (simp_all add: result_or_def)

section \<open>Properties of the sanitizer\<close>

lemma set_replace_from: "set (replace_from old new s) \<subseteq> set s \<union> set new"
proof (induction old new s rule: replace_from.induct)
  case (1 old new)
  show ?case by simp
next
  case (2 old new c cs)
  have "set (drop (length old - 1) cs) \<subseteq> set cs"
    by (rule set_drop_subset)
  with 2 show ?case by (auto split: if_splits)
qed

lemma set_str_replace:
  "old \<noteq> [] \<Longrightarrow> set (str_replace old new s) \<subseteq> set s \<union> set new"
  using set_replace_from [of old new s] by (cases old) simp_all

lemma glyph_not_in_ohm: "SANITIZE_PARAMETER \<notin> set (str ''ohm'')"
  by (simp add: SANITIZE_PARAMETER_def str_def)

lemma sanitize_no_glyph: "SANITIZE_PARAMETER \<notin> set (sanitize_parameter_value v)"
proof -
  let ?v2 = "filter (\<lambda>c. c \<noteq> SANITIZE_PARAMETER) (strip v)"
  let ?v3 = "str_replace (str ''Ohm'') (str ''ohm'') ?v2"
  have a: "SANITIZE_PARAMETER \<notin> set ?v2" by simp
  have "set ?v3 \<subseteq> set ?v2 \<union> set (str ''ohm'')"
    by (rule set_str_replace) (simp add: str_def)
  with a glyph_not_in_ohm have b: "SANITIZE_PARAMETER \<notin> set ?v3" by blast
  have "set (str_replace (str ''ohms'') (str ''ohm'') ?v3) \<subseteq> set ?v3 \<union> set (str ''ohm'')"
    by (rule set_str_replace) (simp add: str_def)
  with b glyph_not_in_ohm
  have "SANITIZE_PARAMETER \<notin> set (str_replace (str ''ohms'') (str ''ohm'') ?v3)" by blast
  then show ?thesis by (simp add: sanitize_parameter_value_def Let_def)
qed

lemma strip_spaces:
  assumes l: "\<forall>c \<in> set ws. isspace c" and r: "\<forall>c \<in> set ws'. isspace c"
  shows "strip (ws @ v @ ws') = strip v"
proof -
  have a: "dropWhile isspace (ws @ v @ ws') = dropWhile isspace (v @ ws')"
    using l by (simp add: dropWhile_append2)
  have b: "dropWhile isspace (rev (dropWhile isspace (v @ ws')))
           = dropWhile isspace (rev (dropWhile isspace v))"
  proof (cases "\<forall>c \<in> set v. isspace c")
    case True
    with r have "\<forall>c \<in> set (v @ ws'). isspace c" by auto
    then have e1: "dropWhile isspace (v @ ws') = []" by (simp only: dropWhile_eq_Nil_conv)
    from True have e2: "dropWhile isspace v = []" by (simp only: dropWhile_eq_Nil_conv)
    show ?thesis unfolding e1 e2 ..
  next
    case False
    then obtain x where x: "x \<in> set v" "\<not> isspace x" by blast
    then have e: "dropWhile isspace (v @ ws') = dropWhile isspace v @ ws'"
      by (rule dropWhile_append1)
    have "\<And>c. c \<in> set (rev ws') \<Longrightarrow> isspace c" using r by simp
    then have "dropWhile isspace (rev ws' @ rev (dropWhile isspace v))
        = dropWhile isspace (rev (dropWhile isspace v))" by (rule dropWhile_append2)
    then show ?thesis unfolding e rev_append .
  qed
  show ?thesis unfolding strip_def a b ..
qed

lemma strip_split:
  "\<exists>ws ws'. v = ws @ strip v @ ws' \<and> (\<forall>c \<in> set ws. isspace c) \<and> (\<forall>c \<in> set ws'. isspace c)"
proof -
  let ?a = "takeWhile isspace v"
  let ?m = "dropWhile isspace v"
  let ?b = "rev (takeWhile isspace (rev ?m))"
  have "rev (takeWhile isspace (rev ?m) @ dropWhile isspace (rev ?m)) = rev (rev ?m)"
    by (simp only: takeWhile_dropWhile_id)
  then have "rev (dropWhile isspace (rev ?m)) @ ?b = ?m"
    by (simp only: rev_append rev_rev_ident)
  then have "strip v @ ?b = ?m" by (simp only: strip_def)
  then have "?a @ strip v @ ?b = ?a @ ?m" by simp
  then have "v = ?a @ strip v @ ?b" by simp
  moreover have "\<forall>c \<in> set ?a. isspace c" by (auto dest: set_takeWhileD)
  moreover have "\<forall>c \<in> set ?b. isspace c" by (auto dest: set_takeWhileD)
  ultimately show ?thesis by blast
qed

lemma strip_ends:
  "strip v = [] \<or> (\<not> isspace (hd (strip v)) \<and> \<not> isspace (last (strip v)))"
proof (cases "strip v = []")
  case True
  then show ?thesis by simp
next
  case False
  let ?m = "dropWhile isspace v"
  let ?d = "dropWhile isspace (rev ?m)"
  have s: "strip v = rev ?d" by (simp add: strip_def)
  with False have ne: "?d \<noteq> []" by simp
  then have h: "\<not> isspace (hd ?d)" by (rule hd_dropWhile)
  have l: "last (strip v) = hd ?d" using ne s by (simp add: last_rev)
  have mne: "?m \<noteq> []"
  proof
    assume e: "?m = []"
    have "?d = []" unfolding e by simp
    with ne show False ..
  qed
  then have hm: "\<not> isspace (hd ?m)" by (rule hd_dropWhile)
  have "rev (takeWhile isspace (rev ?m) @ ?d) = rev (rev ?m)"
    by (simp only: takeWhile_dropWhile_id)
  then have "rev ?d @ rev (takeWhile isspace (rev ?m)) = ?m"
    by (simp only: rev_append rev_rev_ident)
  then have "hd ?m = hd (rev ?d @ rev (takeWhile isspace (rev ?m)))" by simp
  also have "\<dots> = hd (rev ?d)" using ne by simp
  finally have "hd ?m = hd (strip v)" using s by simp
  with hm h l show ?thesis by simp
qed

lemma sanitize_trimmed:
  assumes "v \<noteq> []" "\<not> isspace (hd v)" "\<not> isspace (last v)"
  shows "strip v = v"
proof -
  from assms have a: "dropWhile isspace v = v" by (cases v) simp_all
  from assms have "rev v \<noteq> []" "\<not> isspace (hd (rev v))" by (simp_all add: hd_rev)
  then have "dropWhile isspace (rev v) = rev v" by (cases "rev v") simp_all
  with a show ?thesis by (simp add: strip_def)
qed

lemmas sanitize_eval =
  sanitize_parameter_value_def str_def strip_def isspace_def SANITIZE_PARAMETER_def

text \<open>
  Claim C8, as the code has it. The sanitizer maps a lone \<open>-\<close> to the empty value,
  \<open>10 Ohm\<close> and \<open>10 ohms\<close> to \<open>10 ohm\<close>, and deleting the glyph from
  \<open>10 \<plusminus> 5%\<close> keeps the space on either side of it, so the trimmed result is
  \<open>10\<close>, two spaces, \<open>5%\<close>. In general: no result holds the tolerance glyph U+00B1;
  white space around a value, of any kind that \<open>str.isspace\<close> knows, does not change
  the result, and a value of white space alone gives the empty value; every value is
  white space around a part that is empty or begins and ends with another character;
  and for a value that begins and ends with another character the result is the empty
  value for the lone \<open>-\<close>, and otherwise the value without its glyphs, with \<open>Ohm\<close>
  and then \<open>ohms\<close> replaced by \<open>ohm\<close>.
\<close>

theorem sanitize_parameter_value_examples:
  "sanitize_parameter_value (str ''-'') = [] \<and>
   sanitize_parameter_value (str '' 10 '' @ [177] @ str '' 5% '') = str ''10  5%'' \<and>
   sanitize_parameter_value (str ''10 Ohm'') = str ''10 ohm'' \<and>
   sanitize_parameter_value (str ''10 ohms'') = str ''10 ohm'' \<and>
   sanitize_parameter_value ([9] @ str ''-'' @ [10, 160]) = [] \<and>
   sanitize_parameter_value ([9, 177] @ str ''5 kOhms'' @ [177, 13]) = str ''5 kohm'' \<and>
   (\<forall>v. SANITIZE_PARAMETER \<notin> set (sanitize_parameter_value v)) \<and>
   (\<forall>ws v ws'. (\<forall>c \<in> set ws. isspace c) \<and> (\<forall>c \<in> set ws'. isspace c) \<longrightarrow>
      sanitize_parameter_value (ws @ v @ ws') = sanitize_parameter_value v) \<and>
   (\<forall>v. v \<noteq> [] \<and> \<not> isspace (hd v) \<and> \<not> isspace (last v) \<longrightarrow>
      sanitize_parameter_value v =
        (if v = str ''-'' then []
         else str_replace (str ''ohms'') (str ''ohm'')
                (str_replace (str ''Ohm'') (str ''ohm'')
                   (filter (\<lambda>c. c \<noteq> 177) v)))) \<and>
   (\<forall>v. (\<forall>c \<in> set v. isspace c) \<longrightarrow> sanitize_parameter_value v = []) \<and>
   (\<forall>v. \<exists>ws m ws'. v = ws @ m @ ws' \<and>
      (\<forall>c \<in> set ws. isspace c) \<and> (\<forall>c \<in> set ws'. isspace c) \<and>
      (m = [] \<or> (\<not> isspace (hd m) \<and> \<not> isspace (last m))))"
proof -
  have e1: "sanitize_parameter_value (str ''-'') = []" by (simp add: sanitize_eval)
  have e2: "sanitize_parameter_value (str '' 10 '' @ [177] @ str '' 5% '') = str ''10  5%''"
    by (simp add: sanitize_eval)
  have e3: "sanitize_parameter_value (str ''10 Ohm'') = str ''10 ohm''"
    by (simp add: sanitize_eval)
  have e4: "sanitize_parameter_value (str ''10 ohms'') = str ''10 ohm''"
    by (simp add: sanitize_eval)
  have e5: "sanitize_parameter_value ([9] @ str ''-'' @ [10, 160]) = []"
    by (simp add: sanitize_eval)
  have e6: "sanitize_parameter_value ([9, 177] @ str ''5 kOhms'' @ [177, 13]) = str ''5 kohm''"
    by (simp add: sanitize_eval)
  have g: "\<forall>v. SANITIZE_PARAMETER \<notin> set (sanitize_parameter_value v)"
    using sanitize_no_glyph by blast
  have t: "\<forall>ws v ws'. (\<forall>c \<in> set ws. isspace c) \<and> (\<forall>c \<in> set ws'. isspace c) \<longrightarrow>
      sanitize_parameter_value (ws @ v @ ws') = sanitize_parameter_value v"
    by (simp add: sanitize_parameter_value_def strip_spaces)
  have q: "\<forall>v. v \<noteq> [] \<and> \<not> isspace (hd v) \<and> \<not> isspace (last v) \<longrightarrow>
      sanitize_parameter_value v =
        (if v = str ''-'' then []
         else str_replace (str ''ohms'') (str ''ohm'')
                (str_replace (str ''Ohm'') (str ''ohm'')
                   (filter (\<lambda>c. c \<noteq> 177) v)))"
    by (simp add: sanitize_parameter_value_def sanitize_trimmed SANITIZE_PARAMETER_def)
  have w: "\<forall>v. (\<forall>c \<in> set v. isspace c) \<longrightarrow> sanitize_parameter_value v = []"
  proof (intro allI impI)
    fix v :: pystr
    assume a: "\<forall>c \<in> set v. isspace c"
    then have e: "dropWhile isspace v = []" by (simp only: dropWhile_eq_Nil_conv)
    have "strip v = []" unfolding strip_def e by simp
    then show "sanitize_parameter_value v = []"
      by (simp add: sanitize_parameter_value_def str_def)
  qed
  have d: "\<forall>v. \<exists>ws m ws'. v = ws @ m @ ws' \<and>
      (\<forall>c \<in> set ws. isspace c) \<and> (\<forall>c \<in> set ws'. isspace c) \<and>
      (m = [] \<or> (\<not> isspace (hd m) \<and> \<not> isspace (last m)))"
  proof
    fix v :: pystr
    from strip_split [of v] obtain ws ws' where
      "v = ws @ strip v @ ws'" "\<forall>c \<in> set ws. isspace c" "\<forall>c \<in> set ws'. isspace c"
      by blast
    with strip_ends [of v]
    show "\<exists>ws m ws'. v = ws @ m @ ws' \<and>
      (\<forall>c \<in> set ws. isspace c) \<and> (\<forall>c \<in> set ws'. isspace c) \<and>
      (m = [] \<or> (\<not> isspace (hd m) \<and> \<not> isspace (last m)))" by blast
  qed
  from e1 e2 e3 e4 e5 e6 g t q w d show ?thesis by (intro conjI)
qed

text \<open>
  The theorem for claim C8 at a value between a tab, a space, a line feed and a
  no-break space, and at a value that has nothing to trim.
\<close>

theorem sanitize_parameter_value_examples_witness:
  "isspace 9 \<and> isspace 32 \<and> isspace 10 \<and> isspace 160 \<and>
   sanitize_parameter_value ([9, 32] @ str ''10 Ohm'' @ [10, 160]) = str ''10 ohm'' \<and>
   str ''4k7'' \<noteq> [] \<and> \<not> isspace (hd (str ''4k7'')) \<and> \<not> isspace (last (str ''4k7'')) \<and>
   sanitize_parameter_value (str ''4k7'') = str ''4k7''"
proof -
  note t = sanitize_parameter_value_examples
  have a: "(\<forall>c \<in> set [9, 32]. isspace c)" by (simp add: isspace_def)
  have b: "(\<forall>c \<in> set [10, 160]. isspace c)" by (simp add: isspace_def)
  have c: "str ''4k7'' \<noteq> []" "\<not> isspace (hd (str ''4k7''))" "\<not> isspace (last (str ''4k7''))"
    by (simp_all add: str_def isspace_def)
  from t have "\<forall>ws v ws'. (\<forall>c \<in> set ws. isspace c) \<and> (\<forall>c \<in> set ws'. isspace c) \<longrightarrow>
      sanitize_parameter_value (ws @ v @ ws') = sanitize_parameter_value v" by blast
  with a b have "sanitize_parameter_value ([9, 32] @ str ''10 Ohm'' @ [10, 160])
      = sanitize_parameter_value (str ''10 Ohm'')" by blast
  moreover from t have "sanitize_parameter_value (str ''10 Ohm'') = str ''10 ohm''" by blast
  ultimately have d: "sanitize_parameter_value ([9, 32] @ str ''10 Ohm'' @ [10, 160]) = str ''10 ohm''"
    by simp
  from t have "\<forall>v. v \<noteq> [] \<and> \<not> isspace (hd v) \<and> \<not> isspace (last v) \<longrightarrow>
      sanitize_parameter_value v =
        (if v = str ''-'' then []
         else str_replace (str ''ohms'') (str ''ohm'')
                (str_replace (str ''Ohm'') (str ''ohm'')
                   (filter (\<lambda>c. c \<noteq> 177) v)))" by blast
  with c have "sanitize_parameter_value (str ''4k7'') =
        (if str ''4k7'' = str ''-'' then []
         else str_replace (str ''ohms'') (str ''ohm'')
                (str_replace (str ''Ohm'') (str ''ohm'')
                   (filter (\<lambda>c. c \<noteq> 177) (str ''4k7''))))" by blast
  then have e: "sanitize_parameter_value (str ''4k7'') = str ''4k7''"
    by (simp add: str_def)
  have s: "isspace 9" "isspace 32" "isspace 10" "isspace 160" by (simp_all add: isspace_def)
  from s d c e show ?thesis by (intro conjI)
qed

text \<open>
  Claim C8, as the specification states it, fails: the result for \<open>10 \<plusminus> 5%\<close>
  between spaces is not \<open>10 5%\<close> with a single space.
\<close>

theorem sanitize_tolerance_counterexample:
  "sanitize_parameter_value (str '' 10 '' @ [177] @ str '' 5% '') \<noteq> str ''10 5%''"
  by (simp add: sanitize_eval)

section \<open>Reasoning about programs\<close>

lemma bind_ret [simp]: "bind (ret x) f = f x"
  by (rule ext) (simp add: bind_def ret_def)

lemma bind_raise [simp]: "bind (raise e) f = raise e"
  by (rule ext) (simp add: bind_def raise_def)

lemma seq_ret [simp]: "seq (ret x) n = n"
  by (simp add: seq_def)

lemma seq_raise [simp]: "seq (raise e) n = raise e"
  by (simp add: seq_def)

lemma bind_Inr: "m w = (Inr x, w1) \<Longrightarrow> bind m f w = f x w1"
  by (simp add: bind_def)

lemma bind_Inl: "m w = (Inl e, w1) \<Longrightarrow> bind m f w = (Inl e, w1)"
  by (simp add: bind_def)

lemma seq_Inr: "m w = (Inr x, w1) \<Longrightarrow> seq m n w = n w1"
  by (simp add: seq_def bind_def)

lemma seq_Inl: "m w = (Inl e, w1) \<Longrightarrow> seq m n w = (Inl e, w1)"
  by (simp add: seq_def bind_def)

lemma call_unit_cases:
  obtains (answered) x r' where
      "api rq (repo w) = (Ok x, r')"
      "call_unit api rq w = (Inr (), w\<lparr>repo := r', trace := trace w @ [Called rq (Ok x)]\<rparr>)"
  | (raised) e r' where
      "api rq (repo w) = (Raise e, r')"
      "call_unit api rq w = (Inl e, w\<lparr>repo := r', trace := trace w @ [Called rq (Raise e)]\<rparr>)"
proof (cases "api rq (repo w)")
  case (Pair rep r')
  show ?thesis
  proof (cases rep)
    case (Ok x)
    with Pair answered [of x r'] show ?thesis
      by (simp add: call_unit_def call_def bind_def ret_def)
  next
    case (Raise e)
    with Pair raised [of e r'] show ?thesis
      by (simp add: call_unit_def call_def bind_def)
  qed
qed

lemma requests_append [simp]: "requests (xs @ ys) = requests xs @ requests ys"
  by (induction xs rule: requests.induct) simp_all

lemma said_append [simp]: "said (xs @ ys) = said xs @ said ys"
  by (induction xs rule: said.induct) simp_all


lemmas prog_eval =
  bind_def seq_def ret_def raise_def say_def call_def call_unit_def call_price_breaks_def


lemma bind_cases:
  assumes "bind m f w = (res, w')"
  obtains (raised) e where "m w = (Inl e, w')" "res = Inl e"
  | (returned) x w1 where "m w = (Inr x, w1)" "f x w1 = (res, w')"
proof (cases "m w")
  case (Pair r1 w1)
  show ?thesis
  proof (cases r1)
    case (Inl e)
    with Pair assms raised [of e] show ?thesis by (simp add: bind_def)
  next
    case (Inr x)
    with Pair assms returned [of x w1] show ?thesis by (simp add: bind_def)
  qed
qed



lemma emitsD:
  "emits m P \<Longrightarrow> m w = (res, w') \<Longrightarrow> \<exists>seg. trace w' = trace w @ seg \<and> (\<forall>e \<in> set seg. P e)"
  unfolding emits_def by blast

lemma emits_ret [intro!, simp]: "emits (ret x) P"
  by (simp add: emits_def ret_def)

lemma emits_raise [intro!, simp]: "emits (raise e) P"
  by (simp add: emits_def raise_def)

lemma emits_say [intro!]: "P (Said l m) \<Longrightarrow> emits (say l m) P"
  by (auto simp: emits_def say_def)

lemma emits_call [intro!]: "(\<And>rep. P (Called rq rep)) \<Longrightarrow> emits (call api rq) P"
  by (auto simp: emits_def call_def split: prod.splits reply.splits)

lemma emits_bind [intro!]:
  assumes "emits m P" and "\<And>x. emits (f x) P"
  shows "emits (bind m f) P"
  unfolding emits_def
proof (intro allI impI)
  fix w res w'
  assume run: "bind m f w = (res, w')"
  obtain r1 w1 where m: "m w = (r1, w1)" by (cases "m w")
  from emitsD [OF assms(1) m] obtain seg1 where
    s1: "trace w1 = trace w @ seg1" "\<forall>e \<in> set seg1. P e" by blast
  show "\<exists>seg. trace w' = trace w @ seg \<and> (\<forall>e \<in> set seg. P e)"
  proof (cases r1)
    case (Inl e)
    with run m have "w' = w1" by (simp add: bind_def)
    with s1 show ?thesis by blast
  next
    case (Inr x)
    with run m have "f x w1 = (res, w')" by (simp add: bind_def)
    from emitsD [OF assms(2) this] obtain seg2 where
      "trace w' = trace w1 @ seg2" "\<forall>e \<in> set seg2. P e" by blast
    with s1 have "trace w' = trace w @ (seg1 @ seg2) \<and> (\<forall>e \<in> set (seg1 @ seg2). P e)"
      by auto
    then show ?thesis by blast
  qed
qed

lemma emits_seq [intro!]: "emits m P \<Longrightarrow> emits n P \<Longrightarrow> emits (seq m n) P"
  unfolding seq_def by (rule emits_bind)




lemma emits_weaken: "emits m P \<Longrightarrow> (\<And>e. P e \<Longrightarrow> Q e) \<Longrightarrow> emits m Q"
  unfolding emits_def by blast

lemmas call_defs =
  call_unit_def call_part_def call_part_opt_def call_mpart_def call_mpart_opt_def
  call_spart_def call_spart_opt_def call_pk_def call_index_def call_text_def call_texts_def
  call_finalize_def call_parameters_def call_price_breaks_def call_search_def
  call_results_def

lemma emits_calls [intro!]:
  assumes "\<And>rep. P (Called rq rep)"
  shows "emits (call_unit api rq) P" "emits (call_part api rq) P"
    "emits (call_part_opt api rq) P" "emits (call_mpart api rq) P"
    "emits (call_mpart_opt api rq) P" "emits (call_spart api rq) P"
    "emits (call_spart_opt api rq) P" "emits (call_pk api rq) P"
    "emits (call_index api rq) P" "emits (call_text api rq) P"
    "emits (call_texts api rq) P" "emits (call_parameters api rq) P"
    "emits (call_price_breaks api rq) P" "emits (call_search api rq) P"
    "emits (call_results api rq) P"
  unfolding call_defs
  by (auto intro!: emits_bind emits_call assms split: response.splits option.splits)

lemma emits_call_finalize [intro!]:
  "(\<And>rep. P (Called (Finalize ap) rep)) \<Longrightarrow> emits (call_finalize api ap) P"
  unfolding call_finalize_def
  by (auto intro!: emits_bind emits_call split: response.splits)

lemma call_event:
  "call api rq w = (res, w') \<Longrightarrow> \<exists>rep. trace w' = trace w @ [Called rq rep]"
  by (auto simp: call_def split: prod.splits reply.splits)

lemma call_part_event:
  "call_part api rq w = (res, w') \<Longrightarrow> \<exists>rep. trace w' = trace w @ [Called rq rep]"
  by (auto simp: call_part_def call_def bind_def ret_def raise_def
      split: prod.splits reply.splits response.splits option.splits)



lemma yieldsD: "yields m Q \<Longrightarrow> m w = (Inr x, w') \<Longrightarrow> Q x"
  unfolding yields_def by blast

lemma yields_ret [intro!]: "Q x \<Longrightarrow> yields (ret x) Q"
  by (simp add: yields_def ret_def)

lemma yields_raise [intro!, simp]: "yields (raise e) Q"
  by (simp add: yields_def raise_def)


lemma yields_bind_with:
  assumes "yields m R" and "\<And>x. R x \<Longrightarrow> yields (f x) Q"
  shows "yields (bind m f) Q"
  unfolding yields_def
proof (intro allI impI)
  fix w x w'
  assume "bind m f w = (Inr x, w')"
  then show "Q x"
  proof (cases rule: bind_cases)
    case (raised e)
    then show ?thesis by simp
  next
    case (returned y w1)
    from yieldsD [OF assms(1) returned(1)] have "R y" .
    from yieldsD [OF assms(2) [OF this] returned(2)] show ?thesis .
  qed
qed





lemmas example_defs =
  example_library_def empty_world_def example_candidate_def example_category_def
  example_importer_def example_parameter_map_def other_candidate_def unknown_candidate_def
  first_supplier_def second_supplier_def str_def


lemma call_part_opt_answered:
  "api rq (repo w) = (Ok (RPart p), r1) \<Longrightarrow>
   call_part_opt api rq w
   = (Inr p, w\<lparr>repo := r1, trace := trace w @ [Called rq (Ok (RPart p))]\<rparr>)"
  by (simp add: call_part_opt_def call_def bind_def ret_def)



section \<open>Price break synchronization\<close>

lemma price_break_loop_trace:
  "price_break_loop lib api sp ap stored tiers u w = (res, w') \<Longrightarrow>
   \<exists>seg n. trace w' = trace w @ seg \<and> said seg = [] \<and>
     requests seg = take n (List.map_filter (spec_price_write lib sp ap stored) tiers) \<and>
     (\<forall>u'. res = Inr u' \<longrightarrow>
        requests seg = List.map_filter (spec_price_write lib sp ap stored) tiers \<and>
        u' = (u \<or> requests seg \<noteq> []))"
proof (induction tiers arbitrary: u w)
  case Nil
  then show ?case by (auto simp: ret_def List.map_filter_simps)
next
  case (Cons tier tiers)
  obtain quantity price where tier: "tier = (quantity, price)" by (cases tier)
  let ?W = "List.map_filter (spec_price_write lib sp ap stored) tiers"
  show ?case
  proof (cases "map_of stored quantity")
    case None
    let ?rq = "CreatePriceBreak (spart_pk sp) quantity price (currency ap)"
    have w: "spec_price_write lib sp ap stored tier = Some ?rq"
      using None tier by (simp add: spec_price_write_def)
    have run: "seq (call_unit api ?rq) (price_break_loop lib api sp ap stored tiers True) w
               = (res, w')"
      using Cons.prems None tier by simp
    show ?thesis
    proof (cases rule: call_unit_cases [of api ?rq w])
      case (answered x r')
      let ?w1 = "w\<lparr>repo := r', trace := trace w @ [Called ?rq (Ok x)]\<rparr>"
      from run answered have "price_break_loop lib api sp ap stored tiers True ?w1 = (res, w')"
        by (simp add: seq_Inr)
      from Cons.IH [OF this] obtain seg n where
        s: "trace w' = trace ?w1 @ seg" "said seg = []" "requests seg = take n ?W"
           "\<forall>u'. res = Inr u' \<longrightarrow> requests seg = ?W \<and> u' = (True \<or> requests seg \<noteq> [])"
        by blast
      show ?thesis
        apply (rule exI [of _ "Called ?rq (Ok x) # seg"])
        apply (rule exI [of _ "Suc n"])
        using s w by (auto simp: List.map_filter_simps)
    next
      case (raised e r')
      with run have "res = Inl e"
        "w' = w\<lparr>repo := r', trace := trace w @ [Called ?rq (Raise e)]\<rparr>"
        by (simp_all add: seq_Inl)
      then show ?thesis
        apply -
        apply (rule exI [of _ "[Called ?rq (Raise e)]"])
        apply (rule exI [of _ "Suc 0"])
        using w by (simp add: List.map_filter_simps)
    qed
  next
    case (Some price_break)
    show ?thesis
    proof (cases "py_float lib (pbreak_price price_break)")
      case None
      with Some Cons.prems tier have "res = Inl ValueError" "w' = w"
        by (simp_all add: raise_def)
      then show ?thesis
        apply -
        apply (rule exI [of _ "[]"])
        apply (rule exI [of _ "0"])
        by simp
    next
      case float: (Some stored_price)
      show ?thesis
      proof (cases "price = stored_price")
        case True
        then have w: "spec_price_write lib sp ap stored tier = None"
          using Some float tier by (simp add: spec_price_write_def)
        from True Some float Cons.prems tier
        have "price_break_loop lib api sp ap stored tiers u w = (res, w')" by simp
        from Cons.IH [OF this] show ?thesis using w by (simp add: List.map_filter_simps)
      next
        case False
        let ?rq = "SavePriceBreak price_break price (currency ap)"
        have w: "spec_price_write lib sp ap stored tier = Some ?rq"
          using False Some float tier by (auto simp: spec_price_write_def)
        have run: "seq (call_unit api ?rq) (price_break_loop lib api sp ap stored tiers True) w
                   = (res, w')"
          using Cons.prems Some float False tier by simp
        show ?thesis
        proof (cases rule: call_unit_cases [of api ?rq w])
          case (answered x r')
          let ?w1 = "w\<lparr>repo := r', trace := trace w @ [Called ?rq (Ok x)]\<rparr>"
          from run answered
          have "price_break_loop lib api sp ap stored tiers True ?w1 = (res, w')"
            by (simp add: seq_Inr)
          from Cons.IH [OF this] obtain seg n where
            s: "trace w' = trace ?w1 @ seg" "said seg = []" "requests seg = take n ?W"
               "\<forall>u'. res = Inr u' \<longrightarrow> requests seg = ?W \<and> u' = (True \<or> requests seg \<noteq> [])"
            by blast
          show ?thesis
            apply (rule exI [of _ "Called ?rq (Ok x) # seg"])
            apply (rule exI [of _ "Suc n"])
            using s w by (auto simp: List.map_filter_simps)
        next
          case (raised e r')
          with run have "res = Inl e"
            "w' = w\<lparr>repo := r', trace := trace w @ [Called ?rq (Raise e)]\<rparr>"
            by (simp_all add: seq_Inl)
          then show ?thesis
            apply -
            apply (rule exI [of _ "[Called ?rq (Raise e)]"])
            apply (rule exI [of _ "Suc 0"])
            using w by (simp add: List.map_filter_simps)
        qed
      qed
    qed
  qed
qed


lemma map_of_dict_set: "map_of (dict_set d k v) = (map_of d)(k \<mapsto> v)"
  by (induction d k v rule: dict_set.induct) (auto simp: fun_eq_iff)

lemma map_of_foldl_dict_set:
  "map_of (foldl (\<lambda>d (k, v). dict_set d k v) d0 kvs) = map_of d0 ++ map_of (rev kvs)"
proof (induction kvs arbitrary: d0)
  case Nil
  show ?case by simp
next
  case (Cons kv kvs)
  obtain k v where kv: "kv = (k, v)" by (cases kv)
  show ?case
    by (simp add: kv Cons.IH map_of_dict_set map_add_def fun_eq_iff split: option.splits)
qed

lemma map_of_dict_of: "map_of (dict_of kvs) = map_of (rev kvs)"
  by (simp add: dict_of_def map_of_foldl_dict_set)

lemma stored_price_break:
  assumes "map_of (dict_of (map (\<lambda>pb. (pbreak_quantity pb, pb)) listed)) q = Some pb"
  shows "pb \<in> set listed \<and> pbreak_quantity pb = q"
proof -
  from assms have "(q, pb) \<in> set (rev (map (\<lambda>pb. (pbreak_quantity pb, pb)) listed))"
    by (simp only: map_of_dict_of) (rule map_of_SomeD)
  then show ?thesis by auto
qed

lemma no_stored_price_break:
  "(map_of (dict_of (map (\<lambda>pb. (pbreak_quantity pb, pb)) listed)) q = None)
   = (q \<notin> pbreak_quantity ` set listed)"
  by (simp add: map_of_dict_of map_of_eq_None_iff image_image)

lemma spec_price_write_kind:
  assumes "rq \<in> set (List.map_filter (spec_price_write lib sp ap stored) tiers)"
  shows "(\<exists>pb p. rq = SavePriceBreak pb p (currency ap))
         \<or> (\<exists>q p. rq = CreatePriceBreak (spart_pk sp) q p (currency ap))"
  using assms
  by (auto simp: List.map_filter_def spec_price_write_def split: option.splits if_splits)

lemma price_break_loop_returns:
  assumes "\<forall>rq \<in> set (List.map_filter (spec_price_write lib sp ap stored) tiers).
             \<forall>r. \<exists>x r'. api rq r = (Ok x, r')"
    and "\<forall>tier \<in> set tiers. \<forall>pb. map_of stored (fst tier) = Some pb
             \<longrightarrow> py_float lib (pbreak_price pb) \<noteq> None"
  shows "\<exists>u' w'. price_break_loop lib api sp ap stored tiers u w = (Inr u', w')"
  using assms
proof (induction tiers arbitrary: u w)
  case Nil
  show ?case by (simp add: ret_def)
next
  case (Cons tier tiers)
  obtain quantity price where tier: "tier = (quantity, price)" by (cases tier)
  have ih: "\<And>u w. \<exists>u' w'. price_break_loop lib api sp ap stored tiers u w = (Inr u', w')"
  proof (rule Cons.IH)
    show "\<forall>rq \<in> set (List.map_filter (spec_price_write lib sp ap stored) tiers).
             \<forall>r. \<exists>x r'. api rq r = (Ok x, r')"
      using Cons.prems(1) by (auto simp: List.map_filter_simps split: option.splits)
    show "\<forall>tier \<in> set tiers. \<forall>pb. map_of stored (fst tier) = Some pb
             \<longrightarrow> py_float lib (pbreak_price pb) \<noteq> None"
      using Cons.prems(2) by simp
  qed
  have answered: "\<And>rq. spec_price_write lib sp ap stored tier = Some rq \<Longrightarrow>
      \<exists>u' w'. seq (call_unit api rq) (price_break_loop lib api sp ap stored tiers True) w
               = (Inr u', w')"
  proof -
    fix rq
    assume "spec_price_write lib sp ap stored tier = Some rq"
    with Cons.prems(1) obtain x r' where "api rq (repo w) = (Ok x, r')"
      by (fastforce simp: List.map_filter_simps)
    then have "call_unit api rq w
               = (Inr (), w\<lparr>repo := r', trace := trace w @ [Called rq (Ok x)]\<rparr>)"
      by (simp add: call_unit_def call_def bind_def ret_def)
    then show "\<exists>u' w'. seq (call_unit api rq) (price_break_loop lib api sp ap stored tiers True) w
               = (Inr u', w')"
      using ih by (simp add: seq_Inr)
  qed
  show ?case
  proof (cases "map_of stored quantity")
    case None
    with answered [of "CreatePriceBreak (spart_pk sp) quantity price (currency ap)"] tier
    show ?thesis by (simp add: spec_price_write_def)
  next
    case (Some price_break)
    with Cons.prems(2) tier obtain stored_price where
      float: "py_float lib (pbreak_price price_break) = Some stored_price" by fastforce
    show ?thesis
    proof (cases "price = stored_price")
      case True
      with Some float tier ih show ?thesis by simp
    next
      case False
      with answered [of "SavePriceBreak price_break price (currency ap)"] Some float tier
      show ?thesis by (auto simp: spec_price_write_def)
    qed
  qed
qed

lemma call_price_breaks_answered:
  "api rq (repo w) = (Ok (RPriceBreaks listed), r1) \<Longrightarrow>
   call_price_breaks api rq w
   = (Inr listed, w\<lparr>repo := r1, trace := trace w @ [Called rq (Ok (RPriceBreaks listed))]\<rparr>)"
  by (simp add: call_price_breaks_def call_def bind_def ret_def)

text \<open>
  Claim C7. Once the stored price breaks of the supplier part are listed, the
  synchronizer issues exactly the writes asked for tier by tier, in the order of the
  candidate's mapping: none for a tier whose stored record has an equal price, an
  update of the record for a tier whose stored price differs, a new record for a tier
  with no stored record (\<open>spec_price_write\<close>). A run that an exception ends has issued
  a prefix of these writes. No request ever deletes a price break. A run that
  returns emits the note \<open>updating price breaks\<close> exactly when it issued a write, and
  the run returns whenever the repository answers the writes and the stored prices
  convert. The record looked up for a quantity is one of the listed records and has
  that quantity, and there is none exactly when no listed record has it.
\<close>

theorem setup_price_breaks_writes:
  assumes listed: "api (ListPriceBreaks (spart_pk sp)) (repo w) = (Ok (RPriceBreaks listed), r1)"
    and run: "setup_price_breaks lib api sp ap w = (res, w')"
    and stored: "stored = dict_of (map (\<lambda>pb. (pbreak_quantity pb, pb)) listed)"
    and wanted: "wanted = List.map_filter (spec_price_write lib sp ap stored) (price_breaks ap)"
  shows "\<exists>seg n.
     trace w' = trace w @ Called (ListPriceBreaks (spart_pk sp)) (Ok (RPriceBreaks listed)) # seg \<and>
     requests seg = take n wanted \<and>
     (\<forall>pb. DeletePriceBreak pb \<notin> set (requests seg)) \<and>
     (res = Inr () \<longrightarrow>
        requests seg = wanted \<and>
        said seg = (if wanted = [] then [] else [(Info, UpdatingPriceBreaks)])) \<and>
     ((\<forall>rq \<in> set wanted. \<forall>r. \<exists>x r'. api rq r = (Ok x, r')) \<and>
      (\<forall>pb \<in> set listed. py_float lib (pbreak_price pb) \<noteq> None) \<longrightarrow> res = Inr ()) \<and>
     (\<forall>q pb. map_of stored q = Some pb \<longrightarrow> pb \<in> set listed \<and> pbreak_quantity pb = q) \<and>
     (\<forall>q. (map_of stored q = None) = (q \<notin> pbreak_quantity ` set listed))"
proof -
  let ?w1 = "w\<lparr>repo := r1,
                trace := trace w @ [Called (ListPriceBreaks (spart_pk sp)) (Ok (RPriceBreaks listed))]\<rparr>"
  obtain lres w2 where loop:
    "price_break_loop lib api sp ap stored (price_breaks ap) False ?w1 = (lres, w2)"
    by (cases "price_break_loop lib api sp ap stored (price_breaks ap) False ?w1")
  from price_break_loop_trace [OF loop] obtain seg n where
    s: "trace w2 = trace ?w1 @ seg" "said seg = []" "requests seg = take n wanted"
       "\<forall>u'. lres = Inr u' \<longrightarrow> requests seg = wanted \<and> u' = (False \<or> requests seg \<noteq> [])"
    unfolding wanted by blast
  have run': "setup_price_breaks lib api sp ap w
              = bind (price_break_loop lib api sp ap stored (price_breaks ap) False)
                  (\<lambda>updated_pricing. if updated_pricing then say Info UpdatingPriceBreaks else ret ())
                  ?w1"
    unfolding setup_price_breaks_def stored
    by (simp add: bind_def call_price_breaks_answered [of api "ListPriceBreaks (spart_pk sp)" w listed r1, OF listed])
  have kinds: "\<forall>pb. DeletePriceBreak pb \<notin> set wanted"
    unfolding wanted using spec_price_write_kind [of _ lib sp ap stored "price_breaks ap"] by blast
  have stored_facts:
    "(\<forall>q pb. map_of stored q = Some pb \<longrightarrow> pb \<in> set listed \<and> pbreak_quantity pb = q) \<and>
     (\<forall>q. (map_of stored q = None) = (q \<notin> pbreak_quantity ` set listed))"
    unfolding stored using stored_price_break [of listed] no_stored_price_break [of listed]
    by blast
  have returns: "(\<forall>rq \<in> set wanted. \<forall>r. \<exists>x r'. api rq r = (Ok x, r')) \<and>
      (\<forall>pb \<in> set listed. py_float lib (pbreak_price pb) \<noteq> None) \<Longrightarrow> \<exists>u'. lres = Inr u'"
  proof -
    assume a: "(\<forall>rq \<in> set wanted. \<forall>r. \<exists>x r'. api rq r = (Ok x, r')) \<and>
      (\<forall>pb \<in> set listed. py_float lib (pbreak_price pb) \<noteq> None)"
    have "\<exists>u' w'. price_break_loop lib api sp ap stored (price_breaks ap) False ?w1 = (Inr u', w')"
    proof (rule price_break_loop_returns)
      show "\<forall>rq \<in> set (List.map_filter (spec_price_write lib sp ap stored) (price_breaks ap)).
              \<forall>r. \<exists>x r'. api rq r = (Ok x, r')"
        using a wanted by simp
      show "\<forall>tier \<in> set (price_breaks ap). \<forall>pb. map_of stored (fst tier) = Some pb
              \<longrightarrow> py_float lib (pbreak_price pb) \<noteq> None"
        using a stored_facts by blast
    qed
    with loop show "\<exists>u'. lres = Inr u'" by auto
  qed
  show ?thesis
  proof (cases lres)
    case (Inl e)
    with run run' loop have r: "res = Inl e" "w' = w2" by (simp_all add: bind_Inl)
    have "trace w' = trace w @ Called (ListPriceBreaks (spart_pk sp)) (Ok (RPriceBreaks listed)) # seg"
      using s r by simp
    moreover have "\<forall>pb. DeletePriceBreak pb \<notin> set (requests seg)"
      using kinds s(3) by (metis in_set_takeD)
    moreover have "\<not> ((\<forall>rq \<in> set wanted. \<forall>r. \<exists>x r'. api rq r = (Ok x, r')) \<and>
      (\<forall>pb \<in> set listed. py_float lib (pbreak_price pb) \<noteq> None))"
      using returns Inl by blast
    ultimately show ?thesis
      using s(3) r stored_facts
      apply -
      apply (rule exI [of _ seg])
      apply (rule exI [of _ n])
      by blast
  next
    case (Inr u')
    with s have eq: "requests seg = wanted" and u': "u' = (wanted \<noteq> [])" by auto
    from Inr run run' loop
    have fin: "(if u' then say Info UpdatingPriceBreaks else ret ()) w2 = (res, w')"
      by (simp add: bind_Inr)
    show ?thesis
    proof (cases u')
      case True
      with fin have r: "res = Inr ()" "w' = w2\<lparr>trace := trace w2 @ [Said Info UpdatingPriceBreaks]\<rparr>"
        by (auto simp: say_def)
      show ?thesis
        apply (rule exI [of _ "seg @ [Said Info UpdatingPriceBreaks]"])
        apply (rule exI [of _ "length wanted"])
        using r s eq u' True kinds stored_facts by auto
    next
      case False
      with fin have r: "res = Inr ()" "w' = w2" by (auto simp: ret_def)
      show ?thesis
        apply (rule exI [of _ seg])
        apply (rule exI [of _ "length wanted"])
        using r s eq u' False kinds stored_facts by auto
    qed
  qed
qed


text \<open>
  The specification's example for claim C7: tiers \<open>{10: 1.00, 100: 0.80}\<close> against
  the stored tiers \<open>{10: 1.00, 50: 0.90}\<close>. Tier 100 is created, nothing is written
  for tier 10, and tier 50 is not touched.
\<close>

theorem setup_price_breaks_writes_witness:
  "price_repository (ListPriceBreaks (spart_pk example_supplier_part)) (repo empty_world)
     = (Ok (RPriceBreaks stored_price_breaks), ()) \<and>
   setup_price_breaks example_library price_repository example_supplier_part
       example_candidate empty_world
     = (Inr (), empty_world\<lparr>trace :=
          [Called (ListPriceBreaks 7) (Ok (RPriceBreaks stored_price_breaks)),
           Called (CreatePriceBreak 7 100 (4 / 5) (str ''EUR'')) (Ok RNone),
           Said Info UpdatingPriceBreaks]\<rparr>) \<and>
   (\<exists>seg. requests seg = [CreatePriceBreak 7 100 (4 / 5) (str ''EUR'')] \<and>
      said seg = [(Info, UpdatingPriceBreaks)] \<and>
      (\<forall>pb. DeletePriceBreak pb \<notin> set (requests seg)))"
proof -
  let ?w' = "empty_world\<lparr>trace :=
          [Called (ListPriceBreaks 7) (Ok (RPriceBreaks stored_price_breaks)),
           Called (CreatePriceBreak 7 100 (4 / 5) (str ''EUR'')) (Ok RNone),
           Said Info UpdatingPriceBreaks]\<rparr>"
  have h1: "price_repository (ListPriceBreaks (spart_pk example_supplier_part)) (repo empty_world)
     = (Ok (RPriceBreaks stored_price_breaks), ())" by simp
  have h2: "setup_price_breaks example_library price_repository example_supplier_part
       example_candidate empty_world = (Inr (), ?w')"
    by (simp add: setup_price_breaks_def prog_eval dict_of_def example_library_def
        empty_world_def example_candidate_def stored_price_breaks_def
        example_supplier_part_def str_def)
  have h4: "[CreatePriceBreak 7 100 (4 / 5) (str ''EUR'')]
     = List.map_filter
         (spec_price_write example_library example_supplier_part example_candidate
            (dict_of (map (\<lambda>pb. (pbreak_quantity pb, pb)) stored_price_breaks)))
         (price_breaks example_candidate)"
    by (simp add: List.map_filter_simps spec_price_write_def dict_of_def example_library_def
        example_candidate_def stored_price_breaks_def example_supplier_part_def str_def)
  from setup_price_breaks_writes [OF h1 h2 refl h4] h1 h2 show ?thesis by auto
qed


section \<open>The result of the DigiKey search\<close>

lemmas digikey_eval =
  digikey_search_def example_client_def example_response_def example_product_def
  ascii_lower_def startswith_def str_def

lemma digikey_search_keyword:
  assumes pd: "product_details client search_term = Inr None"
    and kw: "keyword_search client search_term 10 = Inr results"
    and sel: "selected =
       (if 0 < exact_manufacturer_products_count results
        then exact_manufacturer_products results
        else filter (\<lambda>p. startswith (lower client (dk_manufacturer_part_number p))
                             (lower client search_term)) (products results))"
    and ex: "exact = filter (\<lambda>q. lower client (dk_manufacturer_part_number q)
                                  = lower client search_term) selected"
  shows "digikey_search client self_currency search_term =
     (if length exact = 1 then Inr (map (get_api_part self_currency) exact, 1)
      else Inr (map (get_api_part self_currency) selected,
             if 0 < exact_manufacturer_products_count results
             then exact_manufacturer_products_count results else products_count results))"
  using pd kw unfolding sel ex
  by (simp add: digikey_search_def Let_def split: if_splits)

text \<open>
  Claim C10, as the code has it. \<open>DigiKey.search\<close> returns what the client raises,
  or candidates with a count. A product found by the product details lookup is
  returned alone with the count 1. Otherwise the keyword search decides. The selected
  products are the exact manufacturer products when their count is positive, and else
  the products whose manufacturer part number starts with the search term, ignoring
  case. When exactly one selected product has the search term as its manufacturer part
  number, ignoring case, that product is returned alone with the count 1. In every
  other case all selected products are returned, with the count the query reports: the
  count of exact manufacturer products when it is positive, else the product count.
\<close>

theorem digikey_search_result:
  "(\<forall>e. product_details client search_term = Inl e \<longrightarrow>
      digikey_search client self_currency search_term = Inl e) \<and>
   (\<forall>digikey_part. product_details client search_term = Inr (Some digikey_part) \<longrightarrow>
      digikey_search client self_currency search_term
      = Inr ([get_api_part self_currency digikey_part], 1)) \<and>
   (product_details client search_term = Inr None \<longrightarrow>
      (\<forall>e. keyword_search client search_term 10 = Inl e \<longrightarrow>
         digikey_search client self_currency search_term = Inl e) \<and>
      (\<forall>results selected.
         keyword_search client search_term 10 = Inr results \<and>
         selected =
           (if 0 < exact_manufacturer_products_count results
            then exact_manufacturer_products results
            else filter (\<lambda>p. startswith (lower client (dk_manufacturer_part_number p))
                                 (lower client search_term)) (products results)) \<longrightarrow>
         (\<forall>p. filter (\<lambda>q. lower client (dk_manufacturer_part_number q)
                             = lower client search_term) selected = [p] \<longrightarrow>
            digikey_search client self_currency search_term
            = Inr ([get_api_part self_currency p], 1)) \<and>
         (length (filter (\<lambda>q. lower client (dk_manufacturer_part_number q)
                               = lower client search_term) selected) \<noteq> 1 \<longrightarrow>
            digikey_search client self_currency search_term
            = Inr (map (get_api_part self_currency) selected,
                   if 0 < exact_manufacturer_products_count results
                   then exact_manufacturer_products_count results
                   else products_count results))))"
proof -
  have A: "\<forall>e. product_details client search_term = Inl e \<longrightarrow>
      digikey_search client self_currency search_term = Inl e"
    by (simp add: digikey_search_def)
  have B: "\<forall>digikey_part. product_details client search_term = Inr (Some digikey_part) \<longrightarrow>
      digikey_search client self_currency search_term
      = Inr ([get_api_part self_currency digikey_part], 1)"
    by (simp add: digikey_search_def)
  have C: "\<forall>e. keyword_search client search_term 10 = Inl e \<longrightarrow>
         digikey_search client self_currency search_term = Inl e"
    if pd: "product_details client search_term = Inr None"
    using pd by (simp add: digikey_search_def)
  have D: "(\<forall>p. filter (\<lambda>q. lower client (dk_manufacturer_part_number q)
                             = lower client search_term) selected = [p] \<longrightarrow>
            digikey_search client self_currency search_term
            = Inr ([get_api_part self_currency p], 1)) \<and>
         (length (filter (\<lambda>q. lower client (dk_manufacturer_part_number q)
                               = lower client search_term) selected) \<noteq> 1 \<longrightarrow>
            digikey_search client self_currency search_term
            = Inr (map (get_api_part self_currency) selected,
                   if 0 < exact_manufacturer_products_count results
                   then exact_manufacturer_products_count results
                   else products_count results))"
    if pd: "product_details client search_term = Inr None"
      and kw: "keyword_search client search_term 10 = Inr results"
      and sel: "selected =
           (if 0 < exact_manufacturer_products_count results
            then exact_manufacturer_products results
            else filter (\<lambda>p. startswith (lower client (dk_manufacturer_part_number p))
                                 (lower client search_term)) (products results))"
    for results selected
  proof -
    define exact where
      "exact = filter (\<lambda>q. lower client (dk_manufacturer_part_number q)
                             = lower client search_term) selected"
    note eq = digikey_search_keyword [OF pd kw sel exact_def, of self_currency]
    have one: "digikey_search client self_currency search_term
            = Inr ([get_api_part self_currency p], 1)" if "exact = [p]" for p
      using eq that by simp
    have other: "digikey_search client self_currency search_term
            = Inr (map (get_api_part self_currency) selected,
                   if 0 < exact_manufacturer_products_count results
                   then exact_manufacturer_products_count results
                   else products_count results)" if "length exact \<noteq> 1"
      using eq that by simp
    from one other show ?thesis unfolding exact_def by blast
  qed
  show ?thesis
    apply (intro conjI impI allI)
        apply (rule A [rule_format], assumption)
       apply (rule B [rule_format], assumption)
      apply (rule C [rule_format], assumption, assumption)
     apply (erule conjE, rule D [THEN conjunct1, rule_format], assumption, assumption, assumption, assumption)
    apply (erule conjE, rule D [THEN conjunct2, rule_format], assumption, assumption, assumption, assumption)
    done
qed

text \<open>
  The theorem for claim C10 at the example client, whose keyword search reports the
  two products \<open>ABC\<close> and \<open>ABCD\<close>. For the term \<open>abc\<close> one product is returned
  with the count 1; for the term \<open>x\<close> no product is selected, and the count is the
  query's product count 2, larger than the number of candidates.
\<close>


theorem digikey_search_result_witness:
  "product_details example_client (str ''abc'') = Inr None \<and>
   keyword_search example_client (str ''abc'') 10 = Inr example_response \<and>
   filter (\<lambda>q. lower example_client (dk_manufacturer_part_number q)
                = lower example_client (str ''abc''))
     (products example_response) = [example_product (str ''ABC'')] \<and>
   products_count example_response = 2 \<and>
   digikey_search example_client (str ''EUR'') (str ''abc'')
     = Inr ([get_api_part (str ''EUR'') (example_product (str ''ABC''))], 1) \<and>
   product_details example_client (str ''x'') = Inr None \<and>
   keyword_search example_client (str ''x'') 10 = Inr example_response \<and>
   digikey_search example_client (str ''EUR'') (str ''x'') = Inr ([], 2)"
proof -
  let ?sel = "\<lambda>t. (if 0 < exact_manufacturer_products_count example_response
            then exact_manufacturer_products example_response
            else filter (\<lambda>p. startswith (lower example_client (dk_manufacturer_part_number p))
                                 (lower example_client t)) (products example_response))"
  have p: "product_details example_client (str ''abc'') = Inr None"
    by (simp add: example_client_def)
  have k: "keyword_search example_client (str ''abc'') 10 = Inr example_response"
    by (simp add: example_client_def)
  have p': "product_details example_client (str ''x'') = Inr None"
    by (simp add: example_client_def)
  have k': "keyword_search example_client (str ''x'') 10 = Inr example_response"
    by (simp add: example_client_def)
  have s: "?sel (str ''abc'') = [example_product (str ''ABC''), example_product (str ''ABCD'')]"
    by (simp add: digikey_eval)
  have f: "filter (\<lambda>q. lower example_client (dk_manufacturer_part_number q)
                = lower example_client (str ''abc''))
     (products example_response) = [example_product (str ''ABC'')]"
    by (simp add: digikey_eval)
  have f2: "filter (\<lambda>q. lower example_client (dk_manufacturer_part_number q)
                = lower example_client (str ''abc'')) (?sel (str ''abc''))
      = [example_product (str ''ABC'')]"
    unfolding s by (simp add: digikey_eval)
  have c: "products_count example_response = 2" by (simp add: example_response_def)
  have s': "?sel (str ''x'') = []" by (simp add: digikey_eval)
  have n': "length (filter (\<lambda>q. lower example_client (dk_manufacturer_part_number q)
                = lower example_client (str ''x'')) (?sel (str ''x''))) \<noteq> 1"
    unfolding s' by simp
  note t = digikey_search_result [of example_client "str ''abc''" "str ''EUR''",
      THEN conjunct2, THEN conjunct2, rule_format, OF p, THEN conjunct2, rule_format,
      of example_response "?sel (str ''abc'')", OF conjI, OF k refl]
  from t [THEN conjunct1, rule_format, OF f2]
  have r: "digikey_search example_client (str ''EUR'') (str ''abc'')
     = Inr ([get_api_part (str ''EUR'') (example_product (str ''ABC''))], 1)" .
  note t' = digikey_search_result [of example_client "str ''x''" "str ''EUR''",
      THEN conjunct2, THEN conjunct2, rule_format, OF p', THEN conjunct2, rule_format,
      of example_response "?sel (str ''x'')", OF conjI, OF k' refl]
  from t' [THEN conjunct2, rule_format, OF n']
  have "digikey_search example_client (str ''EUR'') (str ''x'')
     = Inr (map (get_api_part (str ''EUR'')) (?sel (str ''x'')),
            if 0 < exact_manufacturer_products_count example_response
            then exact_manufacturer_products_count example_response
            else products_count example_response)" .
  then have r': "digikey_search example_client (str ''EUR'') (str ''x'') = Inr ([], 2)"
    unfolding s' by (simp add: example_response_def)
  from p k f c r p' k' r' show ?thesis by (intro conjI)
qed


text \<open>
  Claim C10, as the specification states it, fails: the keyword query of the example
  client reports two products and returns two, and the search returns one candidate
  with the count 1, which is not the result count of the query.
\<close>

theorem digikey_search_count_counterexample:
  "keyword_search example_client (str ''abc'') 10 = Inr example_response \<and>
   products_count example_response = 2 \<and>
   length (products example_response) = 2 \<and>
   digikey_search example_client (str ''EUR'') (str ''abc'')
     = Inr ([get_api_part (str ''EUR'') (example_product (str ''ABC''))], 1)"
  by (simp add: digikey_eval)


section \<open>Category resolution\<close>

lemma match_category_Some:
  "(match_category cm xs = Some c)
   = (\<exists>ys s zs. xs = ys @ s # zs \<and> (\<forall>y \<in> set ys. map_of cm y = None) \<and> map_of cm s = Some c)"
proof (induction xs)
  case Nil
  show ?case by simp
next
  case (Cons x xs)
  show ?case
  proof (cases "map_of cm x")
    case None
    have "(\<exists>ys s zs. x # xs = ys @ s # zs \<and> (\<forall>y \<in> set ys. map_of cm y = None)
             \<and> map_of cm s = Some c)
        = (\<exists>ys s zs. xs = ys @ s # zs \<and> (\<forall>y \<in> set ys. map_of cm y = None)
             \<and> map_of cm s = Some c)" (is "?L = ?R")
    proof
      assume ?L
      then obtain ys s zs where h: "x # xs = ys @ s # zs" "\<forall>y \<in> set ys. map_of cm y = None"
        "map_of cm s = Some c" by blast
      from h(1) h(3) None obtain ys' where "ys = x # ys'" by (cases ys) auto
      with h show ?R by auto
    next
      assume ?R
      then obtain ys s zs where h: "xs = ys @ s # zs" "\<forall>y \<in> set ys. map_of cm y = None"
        "map_of cm s = Some c" by blast
      then have "x # xs = (x # ys) @ s # zs" "\<forall>y \<in> set (x # ys). map_of cm y = None"
        using None by simp_all
      with h(3) show ?L by blast
    qed
    with None Cons.IH show ?thesis by simp
  next
    case (Some c')
    have "(\<exists>ys s zs. x # xs = ys @ s # zs \<and> (\<forall>y \<in> set ys. map_of cm y = None)
             \<and> map_of cm s = Some c) = (c' = c)" (is "?L = _")
    proof
      assume ?L
      then obtain ys s zs where h: "x # xs = ys @ s # zs" "\<forall>y \<in> set ys. map_of cm y = None"
        "map_of cm s = Some c" by blast
      show "c' = c"
      proof (cases ys)
        case Nil
        with h Some show ?thesis by simp
      next
        case (Cons y ys')
        with h Some show ?thesis by simp
      qed
    next
      assume "c' = c"
      with Some have "x # xs = [] @ x # xs \<and> (\<forall>y \<in> set []. map_of cm y = None)
         \<and> map_of cm x = Some c" by simp
      then show ?L by blast
    qed
    with Some show ?thesis by simp
  qed
qed

lemma match_category_None:
  "(match_category cm xs = None) = (\<forall>s \<in> set xs. map_of cm s = None)"
  by (induction xs) (auto split: option.splits)

lemma match_category_leaf_first:
  "(match_category cm (rev path) = Some c)
   = (\<exists>pre s post. path = pre @ s # post \<and> map_of cm s = Some c
        \<and> (\<forall>t \<in> set post. map_of cm t = None))"
proof
  assume "match_category cm (rev path) = Some c"
  then obtain ys s zs where h: "rev path = ys @ s # zs" "\<forall>y \<in> set ys. map_of cm y = None"
    "map_of cm s = Some c" unfolding match_category_Some by blast
  from h(1) have "path = rev zs @ s # rev ys" by (simp add: rev_swap)
  with h show "\<exists>pre s post. path = pre @ s # post \<and> map_of cm s = Some c
        \<and> (\<forall>t \<in> set post. map_of cm t = None)" by fastforce
next
  assume "\<exists>pre s post. path = pre @ s # post \<and> map_of cm s = Some c
        \<and> (\<forall>t \<in> set post. map_of cm t = None)"
  then obtain pre s post where h: "path = pre @ s # post" "map_of cm s = Some c"
    "\<forall>t \<in> set post. map_of cm t = None" by blast
  then have "rev path = rev post @ s # rev pre" "\<forall>y \<in> set (rev post). map_of cm y = None"
    by simp_all
  with h(2) show "match_category cm (rev path) = Some c"
    unfolding match_category_Some by blast
qed

lemma resolve_category_hit:
  "match_category (category_map self) (rev (category_path ap)) = Some c \<Longrightarrow>
   resolve_category lib api self ap = ret (Some c)"
  by (simp add: resolve_category_def)

lemma resolve_category_miss:
  "match_category (category_map self) (rev (category_path ap)) = None \<Longrightarrow> \<not> interactive self \<Longrightarrow>
   resolve_category lib api self ap
   = seq (say Error (FailedToMatchCategory (category_path ap))) (ret None)"
  by (simp add: resolve_category_def)

lemma create_tail_emits:
  "emits (bind (call_pk api (CreateManufacturer name)) (\<lambda>manufacturer_pk.
          seq (say Info (CreatingManufacturerPart mpn))
         (bind (call_mpart api (CreateManufacturerPart ppk manufacturer_pk ap))
            (\<lambda>manufacturer_part. ret (Inr (manufacturer_part, p))))))
     (\<lambda>e. \<not> is_prompt e)"
  by (intro emits_bind emits_seq emits_calls emits_say emits_ret) simp_all

text \<open>
  Claim C5. The loop over the reversed category path returns the category of the
  segment nearest to the leaf that \<open>category_map\<close> knows. When a segment is known,
  category resolution returns that category and changes nothing: no prompt, no
  request, also in interactive mode; the part is then created in that category, and no
  later event of \<open>create_manufacturer_part\<close> prompts or registers an alias. When no
  segment is known and the importer is not interactive, resolution reports the path
  and fails: \<open>create_manufacturer_part\<close> returns \<open>FAILURE\<close> after the part lookup
  and the error message alone, so no alias is registered and nothing is created.
\<close>

theorem category_resolution:
  "((match_category (category_map self) (rev (category_path ap)) = Some c)
      = (\<exists>pre s post. category_path ap = pre @ s # post \<and> map_of (category_map self) s = Some c
           \<and> (\<forall>t \<in> set post. map_of (category_map self) t = None))) \<and>
   (match_category (category_map self) (rev (category_path ap)) = Some c \<longrightarrow>
      resolve_category lib api self ap w = (Inr (Some c), w)) \<and>
   (match_category (category_map self) (rev (category_path ap)) = Some c \<and>
    api (GetPart (MPN ap)) (repo w) = (Ok (RPart None), r1) \<and>
    create_manufacturer_part lib api self ap None w = (res, w') \<longrightarrow>
      (\<exists>rep rest. trace w' = trace w @ Called (GetPart (MPN ap)) (Ok (RPart None))
           # Said Info (CreatingPart (MPN ap) (cat_pathstring c))
           # Called (CreatePart (cat_part_category_pk c) ap) rep # rest \<and>
         (\<forall>e \<in> set rest. \<not> is_prompt e))) \<and>
   ((\<forall>s \<in> set (category_path ap). map_of (category_map self) s = None) \<and> \<not> interactive self \<longrightarrow>
      resolve_category lib api self ap w
        = (Inr None, w\<lparr>trace := trace w @ [Said Error (FailedToMatchCategory (category_path ap))]\<rparr>) \<and>
      (api (GetPart (MPN ap)) (repo w) = (Ok (RPart None), r1) \<longrightarrow>
         create_manufacturer_part lib api self ap None w
           = (Inr (Inl FAILURE),
              w\<lparr>repo := r1,
                trace := trace w @ [Called (GetPart (MPN ap)) (Ok (RPart None)),
                                    Said Error (FailedToMatchCategory (category_path ap))]\<rparr>)))"
proof (intro conjI impI)
  show "(match_category (category_map self) (rev (category_path ap)) = Some c)
      = (\<exists>pre s post. category_path ap = pre @ s # post \<and> map_of (category_map self) s = Some c
           \<and> (\<forall>t \<in> set post. map_of (category_map self) t = None))"
    by (rule match_category_leaf_first)
next
  assume "match_category (category_map self) (rev (category_path ap)) = Some c"
  then show "resolve_category lib api self ap w = (Inr (Some c), w)"
    by (simp add: resolve_category_hit ret_def)
next
  assume a: "match_category (category_map self) (rev (category_path ap)) = Some c \<and>
    api (GetPart (MPN ap)) (repo w) = (Ok (RPart None), r1) \<and>
    create_manufacturer_part lib api self ap None w = (res, w')"
  from a have hit: "match_category (category_map self) (rev (category_path ap)) = Some c"
    and g: "api (GetPart (MPN ap)) (repo w) = (Ok (RPart None), r1)"
    and run0: "create_manufacturer_part lib api self ap None w = (res, w')" by simp_all
  let ?w1 = "w\<lparr>repo := r1, trace := trace w @ [Called (GetPart (MPN ap)) (Ok (RPart None))]\<rparr>"
  let ?w2 = "?w1\<lparr>trace := trace ?w1 @ [Said Info (CreatingPart (MPN ap) (cat_pathstring c))]\<rparr>"
  let ?K = "\<lambda>p. bind (call_pk api (CreateManufacturer (manufacturer ap))) (\<lambda>manufacturer_pk.
          seq (say Info (CreatingManufacturerPart (MPN ap)))
         (bind (call_mpart api (CreateManufacturerPart (part_pk p) manufacturer_pk ap))
            (\<lambda>manufacturer_part. ret (Inr (manufacturer_part, p) :: ImportResult + ManufacturerPart \<times> Part))))"
  obtain r3 w3 where c3: "call_part api (CreatePart (cat_part_category_pk c) ap) ?w2 = (r3, w3)"
    by (cases "call_part api (CreatePart (cat_part_category_pk c) ap) ?w2")
  from call_part_event [OF c3] obtain rep where
    t3: "trace w3 = trace ?w2 @ [Called (CreatePart (cat_part_category_pk c) ap) rep]" by blast
  have run: "create_manufacturer_part lib api self ap None w
        = (case r3 of Inl e \<Rightarrow> (Inl e, w3) | Inr p \<Rightarrow> ?K p w3)"
    using hit c3
    by (simp add: create_manufacturer_part_def resolve_category_hit bind_def seq_def say_def
        ret_def call_part_opt_answered [of api "GetPart (MPN ap)" w None r1, OF g]
        split: sum.splits)
  show "\<exists>rep rest. trace w' = trace w @ Called (GetPart (MPN ap)) (Ok (RPart None))
           # Said Info (CreatingPart (MPN ap) (cat_pathstring c))
           # Called (CreatePart (cat_part_category_pk c) ap) rep # rest \<and>
         (\<forall>e \<in> set rest. \<not> is_prompt e)"
  proof (cases r3)
    case (Inl e)
    with run run0 have "w' = w3" by simp
    with t3 show ?thesis by simp
  next
    case (Inr p)
    with run run0 have "?K p w3 = (res, w')" by simp
    from emitsD [OF create_tail_emits this] obtain rest where
      "trace w' = trace w3 @ rest" "\<forall>e \<in> set rest. \<not> is_prompt e" by blast
    with t3 show ?thesis by simp
  qed
next
  assume a: "(\<forall>s \<in> set (category_path ap). map_of (category_map self) s = None) \<and> \<not> interactive self"
  then have m: "match_category (category_map self) (rev (category_path ap)) = None"
    by (simp add: match_category_None)
  with a show "resolve_category lib api self ap w
        = (Inr None, w\<lparr>trace := trace w @ [Said Error (FailedToMatchCategory (category_path ap))]\<rparr>)"
    by (simp add: resolve_category_miss seq_def bind_def say_def ret_def)
next
  assume a: "(\<forall>s \<in> set (category_path ap). map_of (category_map self) s = None) \<and> \<not> interactive self"
    and g: "api (GetPart (MPN ap)) (repo w) = (Ok (RPart None), r1)"
  from a have m: "match_category (category_map self) (rev (category_path ap)) = None"
    by (simp add: match_category_None)
  with a show "create_manufacturer_part lib api self ap None w
           = (Inr (Inl FAILURE),
              w\<lparr>repo := r1,
                trace := trace w @ [Called (GetPart (MPN ap)) (Ok (RPart None)),
                                    Said Error (FailedToMatchCategory (category_path ap))]\<rparr>)"
    by (simp add: create_manufacturer_part_def resolve_category_miss bind_def seq_def say_def
        ret_def call_part_opt_answered [of api "GetPart (MPN ap)" w None r1, OF g])
qed


text \<open>
  The theorem for claim C5 at the example importer: the leaf \<open>Resistors\<close> is known,
  and in interactive mode resolution returns its category without an event; the path
  \<open>Unknown\<close>, \<open>Things\<close> is not known, and without interaction the creation fails.
\<close>

theorem category_resolution_witness:
  "match_category (category_map (example_importer True False))
       (rev (category_path example_candidate)) = Some example_category \<and>
   resolve_category example_library fresh_repository (example_importer True False)
       example_candidate empty_world = (Inr (Some example_category), empty_world) \<and>
   map_of (category_map (example_importer False False)) (str ''Unknown'') = None \<and>
   map_of (category_map (example_importer False False)) (str ''Things'') = None \<and>
   create_manufacturer_part example_library fresh_repository (example_importer False False)
       unknown_candidate None empty_world
     = (Inr (Inl FAILURE),
        empty_world\<lparr>trace :=
          [Called (GetPart (str ''R-10K'')) (Ok (RPart None)),
           Said Error (FailedToMatchCategory [str ''Unknown'', str ''Things''])]\<rparr>)"
proof -
  have hit: "match_category (category_map (example_importer True False))
       (rev (category_path example_candidate)) = Some example_category"
    by (simp add: example_defs)
  have miss: "(\<forall>s \<in> set (category_path unknown_candidate).
                 map_of (category_map (example_importer False False)) s = None)
              \<and> \<not> interactive (example_importer False False)"
    by (simp add: example_defs)
  have g: "fresh_repository (GetPart (MPN unknown_candidate)) (repo empty_world)
           = (Ok (RPart None), ())" by simp
  have m1: "map_of (category_map (example_importer False False)) (str ''Unknown'') = None"
    and m2: "map_of (category_map (example_importer False False)) (str ''Things'') = None"
    by (simp_all add: example_defs)
  note t1 = category_resolution [of "example_importer True False" example_candidate
      example_category example_library fresh_repository empty_world]
  from t1 hit have r1: "resolve_category example_library fresh_repository
      (example_importer True False) example_candidate empty_world
      = (Inr (Some example_category), empty_world)" by blast
  note t2 = category_resolution [of "example_importer False False" unknown_candidate
      example_category example_library fresh_repository empty_world "()"]
  from t2 miss g have "create_manufacturer_part example_library fresh_repository
       (example_importer False False) unknown_candidate None empty_world
     = (Inr (Inl FAILURE),
        empty_world\<lparr>repo := (),
          trace := trace empty_world @ [Called (GetPart (MPN unknown_candidate)) (Ok (RPart None)),
             Said Error (FailedToMatchCategory (category_path unknown_candidate))]\<rparr>)"
    by blast
  then have r2: "create_manufacturer_part example_library fresh_repository
       (example_importer False False) unknown_candidate None empty_world
     = (Inr (Inl FAILURE),
        empty_world\<lparr>trace :=
          [Called (GetPart (str ''R-10K'')) (Ok (RPart None)),
           Said Error (FailedToMatchCategory [str ''Unknown'', str ''Things''])]\<rparr>)"
    by (simp add: example_defs)
  from hit r1 m1 m2 r2 show ?thesis by (intro conjI)
qed


section \<open>Parameter reconciliation\<close>

subsection \<open>Dictionaries and sets of names\<close>











subsection \<open>The stored records\<close>



subsection \<open>Matching by alias\<close>


lemma matched_by_alias_Nil [simp]: "\<not> matched_by_alias pmap [] name"
  by (simp add: matched_by_alias_def)




subsection \<open>Reading the interaction off a trace\<close>





subsection \<open>The interactive phase\<close>










subsection \<open>The writes\<close>



text \<open>
  A failed update of a stored parameter: when the repository answers the update with an
  \<open>HTTPError\<close> that carries a body, the task ends with an \<open>AttributeError\<close>, not
  with a warning.
\<close>

lemma update_parameter_failed:
  assumes "api (SaveParameter p v) (repo w) = (Raise (HTTPError (DictBody body json)), r')"
  shows "update_parameter api p v w
         = (Inl AttributeError,
            w\<lparr>repo := r', trace := trace w @ [Called (SaveParameter p v)
                                       (Raise (HTTPError (DictBody body json)))]\<rparr>)"
  using assms
  by (simp add: update_parameter_def try_except_HTTPError_def seq_def bind_def call_unit_def
      call_def ret_def raise_def http_error_body_def)









subsection \<open>No prompt among the writes\<close>














end
